theory Spec2Isabelle
  imports Complex_Main "HOL-Library.Word"
begin

unbundle bit_operations_syntax

section \<open>Images\<close>

text \<open>
  The module \<^verbatim>\<open>textures.py\<close> works on PIL images. An image is modelled by its size and
  its pixels; its PIL mode is the type of the pixels: an \<^verbatim>\<open>RGBA\<close> image holds four bytes
  per pixel, an \<^verbatim>\<open>RGB\<close> image three, an \<^verbatim>\<open>L\<close> image (one band) a single byte.
\<close>

type_synonym byte = "8 word"
type_synonym rgba = "byte \<times> byte \<times> byte \<times> byte"
type_synonym rgb = "byte \<times> byte \<times> byte"
type_synonym pos = "int \<times> int"

record 'p image =
  isize :: "nat \<times> nat"
  px :: "pos \<Rightarrow> 'p"

datatype error =
  IOError string
  | IndexError
  | KeyError
  | UnboundLocalError string
  | Exception string

datatype transposition = FLIP_LEFT_RIGHT | FLIP_TOP_BOTTOM

text \<open>
  What the module takes from its collaborators: the files it opens, PIL's resampling
  filters and floating-point pixel arithmetic, PIL's drawing primitives, and the blend of
  \<^verbatim>\<open>composite.alpha_over\<close>. Each is a parameter; the sizes of the images they yield are
  fixed below, where the calls are modelled.
\<close>

record pil =
  terrain_png :: "rgba image"
  decode_file :: "string \<Rightarrow> rgba image option"
  resize_px :: "rgba image \<Rightarrow> nat \<times> nat \<Rightarrow> pos \<Rightarrow> rgba"
  affine_px :: "rgba image \<Rightarrow> nat \<times> nat \<Rightarrow> real list \<Rightarrow> pos \<Rightarrow> rgba"
  extent_px :: "rgba image \<Rightarrow> nat \<times> nat \<Rightarrow> int list \<Rightarrow> pos \<Rightarrow> rgba"
  rotate_px :: "rgba image \<Rightarrow> int \<Rightarrow> pos \<Rightarrow> rgba"
  brightness_px :: "real \<Rightarrow> rgba \<Rightarrow> rgba"
  grayscale_px :: "rgba \<Rightarrow> byte"
  colorize_px :: "byte \<Rightarrow> int \<times> int \<times> int \<Rightarrow> int \<times> int \<times> int \<Rightarrow> rgb"
  over_px :: "rgba image \<Rightarrow> rgba image \<Rightarrow> int list \<Rightarrow> rgba image option \<Rightarrow> pos \<Rightarrow> rgba"
  rectangle_px :: "rgba image \<Rightarrow> int list \<Rightarrow> int list \<Rightarrow> int list \<Rightarrow> pos \<Rightarrow> rgba"
  line_px :: "rgba image \<Rightarrow> pos list \<Rightarrow> int list \<Rightarrow> pos \<Rightarrow> rgba"

subsection \<open>PIL calls\<close>

text \<open>\<^verbatim>\<open>Image.new(mode, size, color)\<close>.\<close>

definition image_new :: "nat \<times> nat \<Rightarrow> 'p \<Rightarrow> 'p image" where
  "image_new sz c = \<lparr>isize = sz, px = (\<lambda>p. c)\<rparr>"

text \<open>The transparent background every canvas of the module starts from.\<close>

definition background :: rgba where
  "background = (38, 92, 255, 0)"

text \<open>\<^verbatim>\<open>img.resize(size, Image.ANTIALIAS)\<close>: an image of the size asked for.\<close>

definition image_resize :: "pil \<Rightarrow> rgba image \<Rightarrow> nat \<times> nat \<Rightarrow> rgba image" where
  "image_resize L img sz = \<lparr>isize = sz, px = resize_px L img sz\<rparr>"

text \<open>\<^verbatim>\<open>img.transform(size, Image.AFFINE, data)\<close>: an image of the size asked for.\<close>

definition image_transform_affine ::
  "pil \<Rightarrow> rgba image \<Rightarrow> nat \<times> nat \<Rightarrow> real list \<Rightarrow> rgba image" where
  "image_transform_affine L img sz coeffs = \<lparr>isize = sz, px = affine_px L img sz coeffs\<rparr>"

text \<open>\<^verbatim>\<open>img.transform(size, Image.EXTENT, box, Image.BICUBIC)\<close>.\<close>

definition image_transform_extent ::
  "pil \<Rightarrow> rgba image \<Rightarrow> nat \<times> nat \<Rightarrow> int list \<Rightarrow> rgba image" where
  "image_transform_extent L img sz box = \<lparr>isize = sz, px = extent_px L img sz box\<rparr>"

text \<open>\<^verbatim>\<open>img.transpose(method)\<close>: the mirror image, of the same size.\<close>

definition image_transpose :: "transposition \<Rightarrow> 'p image \<Rightarrow> 'p image" where
  "image_transpose m img =
     (case m of
        FLIP_LEFT_RIGHT \<Rightarrow>
          \<lparr>isize = isize img, px = (\<lambda>(x, y). px img (int (fst (isize img)) - 1 - x, y))\<rparr>
      | FLIP_TOP_BOTTOM \<Rightarrow>
          \<lparr>isize = isize img, px = (\<lambda>(x, y). px img (x, int (snd (isize img)) - 1 - y))\<rparr>)"

text \<open>\<^verbatim>\<open>img.rotate(angle)\<close> and \<^verbatim>\<open>img.rotate(angle, Image.NEAREST)\<close>: the nearest filter
  is the default, and the size is kept.\<close>

definition image_rotate :: "pil \<Rightarrow> rgba image \<Rightarrow> int \<Rightarrow> rgba image" where
  "image_rotate L img angle = \<lparr>isize = isize img, px = rotate_px L img angle\<rparr>"

text \<open>\<^verbatim>\<open>img.crop((left, upper, right, lower))\<close>; outside the source the crop is empty.\<close>

definition image_crop :: "rgba image \<Rightarrow> int \<times> int \<times> int \<times> int \<Rightarrow> rgba image" where
  "image_crop img box =
     (case box of (left, upper, right, lower) \<Rightarrow>
        \<lparr>isize = (nat (right - left), nat (lower - upper)),
         px = (\<lambda>(x, y).
                 if 0 \<le> x + left \<and> x + left < int (fst (isize img)) \<and>
                    0 \<le> y + upper \<and> y + upper < int (snd (isize img))
                 then px img (x + left, y + upper) else (0, 0, 0, 0))\<rparr>)"

text \<open>\<^verbatim>\<open>img.copy()\<close>: the model has no sharing, a copy is the image.\<close>

definition image_copy :: "'p image \<Rightarrow> 'p image" where
  "image_copy img = img"

text \<open>\<^verbatim>\<open>img.split()[3]\<close>: the alpha band of an RGBA image.\<close>

definition alpha_band :: "rgba image \<Rightarrow> byte image" where
  "alpha_band img = \<lparr>isize = isize img, px = (\<lambda>p. snd (snd (snd (px img p))))\<rparr>"

text \<open>\<^verbatim>\<open>img.convert("RGB")\<close>.\<close>

definition convert_RGB :: "rgba image \<Rightarrow> rgb image" where
  "convert_RGB img =
     \<lparr>isize = isize img, px = (\<lambda>p. case px img p of (r, g, b, a) \<Rightarrow> (r, g, b))\<rparr>"

text \<open>\<^verbatim>\<open>img.putalpha(band)\<close> on an RGBA image; the band is always one split from an image
  of the same size.\<close>

definition putalpha :: "rgba image \<Rightarrow> byte image \<Rightarrow> rgba image" where
  "putalpha img band =
     \<lparr>isize = isize img, px = (\<lambda>p. case px img p of (r, g, b, a) \<Rightarrow> (r, g, b, px band p))\<rparr>"

text \<open>\<^verbatim>\<open>img.putalpha(band)\<close> on an RGB image: PIL converts the image to RGBA first.\<close>

definition putalpha_RGB :: "rgb image \<Rightarrow> byte image \<Rightarrow> rgba image" where
  "putalpha_RGB img band =
     \<lparr>isize = isize img, px = (\<lambda>p. case px img p of (r, g, b) \<Rightarrow> (r, g, b, px band p))\<rparr>"

text \<open>\<^verbatim>\<open>img.getpixel(xy)\<close> and \<^verbatim>\<open>img.putpixel(xy, value)\<close>, called inside the image only.\<close>

definition getpixel :: "'p image \<Rightarrow> pos \<Rightarrow> 'p" where
  "getpixel img xy = px img xy"

definition putpixel :: "'p image \<Rightarrow> pos \<Rightarrow> 'p \<Rightarrow> 'p image" where
  "putpixel img xy v = \<lparr>isize = isize img, px = (px img)(xy := v)\<rparr>"

text \<open>\<^verbatim>\<open>ImageEnhance.Brightness(img).enhance(factor)\<close>: a blend with black, pixel by
  pixel, all four bands; the size is kept.\<close>

definition brightness_enhance :: "pil \<Rightarrow> rgba image \<Rightarrow> real \<Rightarrow> rgba image" where
  "brightness_enhance L img factor =
     \<lparr>isize = isize img, px = (\<lambda>p. brightness_px L factor (px img p))\<rparr>"

text \<open>\<^verbatim>\<open>ImageOps.grayscale(img)\<close> and \<^verbatim>\<open>ImageOps.colorize(gray, black, white)\<close>: pixel by
  pixel; the sizes are kept, the result of the second is an RGB image.\<close>

definition grayscale :: "pil \<Rightarrow> rgba image \<Rightarrow> byte image" where
  "grayscale L img = \<lparr>isize = isize img, px = (\<lambda>p. grayscale_px L (px img p))\<rparr>"

definition colorize ::
  "pil \<Rightarrow> byte image \<Rightarrow> int \<times> int \<times> int \<Rightarrow> int \<times> int \<times> int \<Rightarrow> rgb image" where
  "colorize L gray black white =
     \<lparr>isize = isize gray, px = (\<lambda>p. colorize_px L (px gray p) black white)\<rparr>"

text \<open>\<^verbatim>\<open>ImageDraw.Draw(img).rectangle(box, outline=..., fill=...)\<close> and
  \<^verbatim>\<open>ImageDraw.Draw(img).line(points, fill=...)\<close> draw on the image in place.\<close>

definition draw_rectangle :: "pil \<Rightarrow> rgba image \<Rightarrow> int list \<Rightarrow> int list \<Rightarrow> int list \<Rightarrow> rgba image" where
  "draw_rectangle L img box outline fill =
     \<lparr>isize = isize img, px = rectangle_px L img box outline fill\<rparr>"

definition draw_line :: "pil \<Rightarrow> rgba image \<Rightarrow> pos list \<Rightarrow> int list \<Rightarrow> rgba image" where
  "draw_line L img points fill = \<lparr>isize = isize img, px = line_px L img points fill\<rparr>"

text \<open>
  \<^verbatim>\<open>composite.alpha_over(dest, src, pos_or_rect=(0, 0), mask=None)\<close> composites
  \<open>src\<close> onto \<open>dest\<close> in place, weighted by the alpha channel of \<open>mask\<close>. The
  module \<^verbatim>\<open>composite\<close> is not part of the sources: the blend is the parameter
  \<open>over_px\<close>, which receives the four arguments as the call passes them.
\<close>

definition alpha_over ::
  "pil \<Rightarrow> rgba image \<Rightarrow> rgba image \<Rightarrow> int list \<Rightarrow> rgba image option \<Rightarrow> rgba image" where
  "alpha_over L dest src pos_or_rect msk =
     \<lparr>isize = isize dest, px = over_px L dest src pos_or_rect msk\<rparr>"

subsection \<open>Loading and slicing the atlas\<close>

text \<open>\<^verbatim>\<open>_load_image(filename)\<close>: \<^verbatim>\<open>_find_file\<close> raises IOError when no location holds
  the file.\<close>

definition load_image :: "pil \<Rightarrow> string \<Rightarrow> error + rgba image" where
  "load_image L filename =
     (case decode_file L filename of
        None \<Rightarrow> Inl (IOError filename)
      | Some img \<Rightarrow> Inr img)"

definition split_terrain :: "pil \<Rightarrow> rgba image \<Rightarrow> rgba image list" where
  "split_terrain L terrain =
     (let terrain_width = int (fst (isize terrain));
          texture_resolution = terrain_width div 16
      in concat (map (\<lambda>y. map (\<lambda>x.
            let left = x * texture_resolution;
                upper = y * texture_resolution;
                right = left + texture_resolution;
                lower = upper + texture_resolution
            in image_transform_extent L terrain (16, 16) [left, upper, right, lower])
          [0..<16]) [0..<16]))"

text \<open>The module global \<^verbatim>\<open>terrain_images\<close>, once the module has loaded:
  \<open>terrain_png\<close> is the atlas \<^verbatim>\<open>_get_terrain_image()\<close> returned.\<close>

definition terrain_images :: "pil \<Rightarrow> rgba image list" where
  "terrain_images L = split_terrain L (terrain_png L)"

text \<open>\<^verbatim>\<open>terrain_images[i]\<close> as Python indexes a list: a negative index counts from the
  end, an index outside raises IndexError.\<close>

definition terrain_image :: "pil \<Rightarrow> int \<Rightarrow> error + rgba image" where
  "terrain_image L i =
     (let n = int (length (terrain_images L));
          j = (if i < 0 then n + i else i)
      in if 0 \<le> j \<and> j < n then Inr (terrain_images L ! nat j) else Inl IndexError)"

text \<open>\<^verbatim>\<open>terrain_images[n]\<close> for a literal index \<open>n\<close> below 256.\<close>

definition tile :: "pil \<Rightarrow> nat \<Rightarrow> rgba image" where
  "tile L n = terrain_images L ! n"

section \<open>The affine projector\<close>

type_synonym matrix = "real list list"

definition identity3 :: matrix where
  "identity3 = [[1, 0, 0], [0, 1, 0], [0, 0, 1]]"

definition matmul :: "matrix \<Rightarrow> matrix \<Rightarrow> matrix" where
  "matmul A B = map (\<lambda>row. map (\<lambda>col. sum_list (map2 (*) row col)) (transpose B)) A"

text \<open>\<^verbatim>\<open>numpy.array(transform)[:2,:].ravel().tolist()\<close>.\<close>

definition affine_data :: "matrix \<Rightarrow> real list" where
  "affine_data M = concat (take 2 M)"

definition transform_image_matrix :: matrix where
  "transform_image_matrix =
     (let transform = identity3;
          transform = matmul transform [[1, 0, 8.5], [0, 1, 8.5], [0, 0, 1]];
          ratio = cos (pi / 4);
          transform = matmul transform [[ratio, - ratio, 0], [ratio, ratio, 0], [0, 0, 1]];
          transform = matmul transform [[1, 0, - 12], [0, 1, - 12], [0, 0, 1]];
          transform = matmul transform [[1, 0, 0], [0, 2, 0], [0, 0, 1]]
      in transform)"

text \<open>The first step of \<^verbatim>\<open>transform_image\<close>: the resize.\<close>

definition transform_image_resized :: "pil \<Rightarrow> rgba image \<Rightarrow> int option \<Rightarrow> rgba image" where
  "transform_image_resized L img blockID =
     (if blockID = Some 81 \<or> blockID = Some 92
      then image_resize L img (15, 15)
      else image_resize L img (17, 17))"

definition transform_image :: "pil \<Rightarrow> rgba image \<Rightarrow> int option \<Rightarrow> rgba image" where
  "transform_image L img blockID =
     (let img = transform_image_resized L img blockID;
          transform = affine_data transform_image_matrix;
          newimg = image_transform_affine L img (24, 12) transform
      in newimg)"

definition transform_image_side :: "pil \<Rightarrow> rgba image \<Rightarrow> int option \<Rightarrow> rgba image" where
  "transform_image_side L img blockID =
     (let img = (if blockID = Some 44
                 then (let msk = image_crop img (0, 8, 16, 16);
                           n = image_new (isize img) background
                       in alpha_over L n msk [0, 0, 16, 8] (Some msk))
                 else img);
          img = (if blockID = Some 78
                 then (let msk = image_crop img (0, 12, 16, 16);
                           n = image_new (isize img) background
                       in alpha_over L n msk [0, 12, 16, 16] (Some msk))
                 else img);
          img = image_resize L img (12, 12);
          transform = identity3;
          transform = matmul transform [[1, 0, 0], [- 0.5, 1, 0], [0, 0, 1]];
          transform = affine_data transform;
          newimg = image_transform_affine L img (12, 18) transform
      in newimg)"

definition transform_image_slope :: "pil \<Rightarrow> rgba image \<Rightarrow> int option \<Rightarrow> rgba image" where
  "transform_image_slope L img blockID =
     (let img = image_resize L img (12, 12);
          transform = identity3;
          transform = matmul transform [[0.75, - 0.5, 3], [0.25, 0.5, - 3], [0, 0, 1]];
          transform = affine_data transform;
          newimg = image_transform_affine L img (24, 24) transform
      in newimg)"

section \<open>The biome tinter\<close>

definition tintTexture :: "pil \<Rightarrow> rgba image \<Rightarrow> int \<times> int \<times> int \<Rightarrow> rgba image" where
  "tintTexture L im c =
     (let i = colorize L (grayscale L im) (0, 0, 0) c;
          i = putalpha_RGB i (alpha_band im)
      in i)"

section \<open>The cube builders\<close>

text \<open>The mirrored side and the darkening of both sides in \<^verbatim>\<open>_build_block\<close>; \<open>side\<close>
  is the side texture already sheared by \<^verbatim>\<open>transform_image_side\<close>.\<close>

definition build_block_sides :: "pil \<Rightarrow> rgba image \<Rightarrow> rgba image \<times> rgba image" where
  "build_block_sides L side =
     (let otherside = image_transpose FLIP_LEFT_RIGHT side;
          sidealpha = alpha_band side;
          side = brightness_enhance L side 0.9;
          side = putalpha side sidealpha;
          othersidealpha = alpha_band otherside;
          otherside = brightness_enhance L otherside 0.8;
          otherside = putalpha otherside othersidealpha
      in (side, otherside))"

text \<open>The two loops that touch up six pixels of the finished cube.\<close>

definition touch_up :: "rgba image \<Rightarrow> rgba image" where
  "touch_up img =
     (let img = foldl (\<lambda>img (x, y). putpixel img (x, y) (getpixel img (x - 1, y)))
                  img [(13, 23), (17, 21), (21, 19)];
          img = foldl (\<lambda>img (x, y). putpixel img (x, y) (getpixel img (x + 1, y)))
                  img [(3, 4), (7, 2), (11, 0)]
      in img)"

text \<open>Where \<^verbatim>\<open>_build_block\<close> pastes the two sides and the top, by block.\<close>

definition build_block_placed ::
  "pil \<Rightarrow> int option \<Rightarrow> rgba image \<Rightarrow> rgba image \<Rightarrow> rgba image \<Rightarrow> rgba image \<Rightarrow> rgba image" where
  "build_block_placed L blockID img top' side otherside =
     (if blockID = Some 81
      then (let img = alpha_over L img side [2, 6] (Some side);
                img = alpha_over L img otherside [10, 6] (Some otherside);
                img = alpha_over L img top' [0, 2] (Some top')
            in img)
      else if blockID = Some 44
      then (let img = alpha_over L img side [0, 12] (Some side);
                img = alpha_over L img otherside [12, 12] (Some otherside);
                img = alpha_over L img top' [0, 6] (Some top')
            in img)
      else if blockID = Some 78
      then (let img = alpha_over L img side [0, 6] (Some side);
                img = alpha_over L img otherside [12, 6] (Some otherside);
                img = alpha_over L img top' [0, 9] (Some top')
            in img)
      else (let img = alpha_over L img side [0, 6] (Some side);
                img = alpha_over L img otherside [12, 6] (Some otherside);
                img = alpha_over L img top' [0, 0] (Some top')
            in img))"

definition build_block :: "pil \<Rightarrow> rgba image \<Rightarrow> rgba image option \<Rightarrow> int option \<Rightarrow> rgba image" where
  "build_block L top' side blockID =
     (let img = image_new (24, 24) background;
          top' = transform_image L top' blockID
      in case side of
           None \<Rightarrow> alpha_over L img top' [0, 0] (Some top')
         | Some side \<Rightarrow>
             (let side = transform_image_side L side blockID;
                  (side, otherside) = build_block_sides L side
              in if blockID \<in> {Some 37, Some 38, Some 6, Some 39, Some 40, Some 83}
                 then (let img = alpha_over L img side [6, 3] (Some side);
                           img = alpha_over L img otherside [6, 3] (Some otherside)
                       in img)
                 else touch_up (build_block_placed L blockID img top' side otherside)))"

text \<open>\<^verbatim>\<open>_build_full_block\<close>: every face is optional. The mask of each call is the
  variable the source passes.\<close>

definition build_full_block ::
  "pil \<Rightarrow> rgba image option \<Rightarrow> rgba image option \<Rightarrow> rgba image option \<Rightarrow>
   rgba image option \<Rightarrow> rgba image option \<Rightarrow> rgba image option \<Rightarrow> int option \<Rightarrow> rgba image" where
  "build_full_block L top' side1 side2 side3 side4 bottom blockID =
     (let img = image_new (24, 24) background;
          img = (case side1 of
                   None \<Rightarrow> img
                 | Some side1 \<Rightarrow>
                     (let side1 = transform_image_side L side1 blockID;
                          side1 = image_transpose FLIP_LEFT_RIGHT side1;
                          sidealpha = alpha_band side1;
                          side1 = brightness_enhance L side1 0.9;
                          side1 = putalpha side1 sidealpha
                      in alpha_over L img side1 [0, 0] (Some side1)));
          img = (case side2 of
                   None \<Rightarrow> img
                 | Some side2 \<Rightarrow>
                     (let side2 = transform_image_side L side2 blockID;
                          sidealpha2 = alpha_band side2;
                          side2 = brightness_enhance L side2 0.8;
                          side2 = putalpha side2 sidealpha2
                      in alpha_over L img side2 [12, 0] (Some side2)));
          img = (case bottom of
                   None \<Rightarrow> img
                 | Some bottom \<Rightarrow>
                     (let bottom = transform_image L bottom blockID
                      in alpha_over L img bottom [0, 12] top'));
          img = (case side3 of
                   None \<Rightarrow> img
                 | Some side3 \<Rightarrow>
                     (let side3 = transform_image_side L side3 blockID;
                          sidealpha = alpha_band side3;
                          side3 = brightness_enhance L side3 0.9;
                          side3 = putalpha side3 sidealpha
                      in alpha_over L img side3 [0, 6] (Some side3)));
          img = (case side4 of
                   None \<Rightarrow> img
                 | Some side4 \<Rightarrow>
                     (let side4 = transform_image_side L side4 blockID;
                          side4 = image_transpose FLIP_LEFT_RIGHT side4;
                          sidealpha = alpha_band side4;
                          side4 = brightness_enhance L side4 0.8;
                          side4 = putalpha side4 sidealpha
                      in alpha_over L img side4 [12, 6] (Some side4)));
          img = (case top' of
                   None \<Rightarrow> img
                 | Some top' \<Rightarrow>
                     (let top' = transform_image L top' blockID
                      in alpha_over L img top' [0, 0] (Some top')))
      in img)"

section \<open>The plain cubes\<close>

text \<open>A cache entry is a pair. Its first component is the sprite in RGB mode; its second
  is a PIL image too, either an alpha band (mode \<^verbatim>\<open>L\<close>) or a whole RGBA image, as the
  code that stores the entry decides.\<close>

datatype second = AlphaBand "byte image" | FullImage "rgba image"

type_synonym entry = "rgb image \<times> second"

text \<open>The pair \<^verbatim>\<open>(img.convert("RGB"), img.split()[3])\<close>.\<close>

definition sprite_entry :: "rgba image \<Rightarrow> entry" where
  "sprite_entry img = (convert_RGB img, AlphaBand (alpha_band img))"

definition topids :: "int list" where
  "topids =
     [ -1,  1,  0,  2, 16,  4, -1, 17,205,205,237,237, 18, 19, 32, 33,
       34, -1, 52, 48, 49,160,144, -1,176, 74, -1, -1, -1, -1, -1, -1,
       -1, -1, -1, -1, -1, 13, 12, 29, 28, 23, 22, -1, -1,  7,  8, 35,
       36, 37, -1, -1, 65, -1, 25, -1, 98, 24, -1, -1, 86, -1, -1, -1,
       -1, -1, -1, -1, -1, -1, -1, -1, -1, 51, 51, -1, -1, -1, 66, 67,
       66, 69, 72, 73, 74, -1,102,103,104,105, -1,102]"

definition sideids :: "int list" where
  "sideids =
     [ -1,  1,  3,  2, 16,  4, -1, 17,205,205,237,237, 18, 19, 32, 33,
       34, -1, 52, 48, 49,160,144, -1,192, 74, -1, -1, -1, -1, -1, -1,
       -1, -1, -1, -1, -1, 13, 12, 29, 28, 23, 22, -1, -1,  7,  8, 35,
       36, 37, -1, -1, 65, -1, 25,101, 98, 24, -1, -1, 86, -1, -1, -1,
       -1, -1, -1, -1, -1, -1, -1, -1, -1, 51, 51, -1, -1, -1, 66, 67,
       66, 69, 72, 73, 74, -1,118,103,104,105, -1,118]"

text \<open>The \<^verbatim>\<open>for\<close> loop of \<^verbatim>\<open>_build_blockimages\<close> over
  \<^verbatim>\<open>zip(topids, sideids, range(len(topids)))\<close>.\<close>

fun blockimages_loop ::
  "pil \<Rightarrow> (int \<times> int \<times> int) list \<Rightarrow> entry option list \<Rightarrow> error + entry option list" where
  "blockimages_loop L [] allimages = Inr allimages"
| "blockimages_loop L ((toptextureid, sidetextureid, blockID) # rest) allimages =
     (if toptextureid = -1 \<or> sidetextureid = -1
      then blockimages_loop L rest (allimages @ [None])
      else
        (case terrain_image L toptextureid of
           Inl e \<Rightarrow> Inl e
         | Inr toptexture \<Rightarrow>
             (case terrain_image L sidetextureid of
                Inl e \<Rightarrow> Inl e
              | Inr sidetexture \<Rightarrow>
                  (let img = build_block L toptexture (Some sidetexture) (Some blockID)
                   in blockimages_loop L rest
                        (allimages @ [Some (convert_RGB img, AlphaBand (alpha_band img))])))))"

text \<open>The \<^verbatim>\<open>while len(allimages) < 256\<close> loop.\<close>

function future_blocks :: "entry option list \<Rightarrow> entry option list" where
  "future_blocks allimages =
     (if length allimages < 256 then future_blocks (allimages @ [None]) else allimages)"
  by pat_completeness auto
termination
  by (relation "measure (\<lambda>allimages. 256 - length allimages)") auto

definition build_blockimages :: "pil \<Rightarrow> error + entry option list" where
  "build_blockimages L =
     (if length topids \<noteq> length sideids then Inl (Exception ''mismatched lengths'')
      else
        (case blockimages_loop L
                (zip topids (zip sideids (map int [0..<length topids]))) [] of
           Inl e \<Rightarrow> Inl e
         | Inr allimages \<Rightarrow> Inr (future_blocks allimages)))"

text \<open>\<^verbatim>\<open>load_water\<close> mutates the global \<^verbatim>\<open>blockmap\<close>, a list of 256 entries; here it
  takes the list and returns it updated.\<close>

definition load_water :: "pil \<Rightarrow> entry option list \<Rightarrow> error + entry option list" where
  "load_water L blockmap =
     (case load_image L ''water.png'' of
        Inl e \<Rightarrow> Inl e
      | Inr watertexture \<Rightarrow>
          (let w1 = build_block L watertexture None None;
               blockmap = blockmap[9 := Some (convert_RGB w1, FullImage w1)];
               w2 = build_block L watertexture (Some watertexture) None;
               blockmap = blockmap[8 := Some (convert_RGB w2, FullImage w2)]
           in case load_image L ''lava.png'' of
                Inl e \<Rightarrow> Inl e
              | Inr lavatexture \<Rightarrow>
                  (let lavablock = build_block L lavatexture (Some lavatexture) None;
                       blockmap = blockmap[10 := Some (convert_RGB lavablock, FullImage lavablock)];
                       blockmap = blockmap[11 := blockmap ! 10]
                   in Inr blockmap)))"

text \<open>The global \<^verbatim>\<open>blockmap\<close> once the module has run
  \<^verbatim>\<open>blockmap = _build_blockimages()\<close> and \<^verbatim>\<open>load_water()\<close>.\<close>

definition blockmap :: "pil \<Rightarrow> error + entry option list" where
  "blockmap L =
     (case build_blockimages L of
        Inl e \<Rightarrow> Inl e
      | Inr allimages \<Rightarrow> load_water L allimages)"

section \<open>The variant generator\<close>

text \<open>
  \<^verbatim>\<open>generate_special_texture(blockID, data)\<close> is a sequence of \<^verbatim>\<open>if\<close> statements on
  \<open>blockID\<close>. The body of each statement is a definition \<open>special_\<dots>\<close> below, in the
  order of the source; the sequence itself follows them. A result is \<open>Inl\<close> of the error
  raised, or \<open>Inr\<close> of the value returned: an entry, or \<open>None\<close>.
\<close>

text \<open>\<^verbatim>\<open>return (img.convert("RGB"), img.split()[3])\<close>.\<close>

definition return_sprite :: "rgba image \<Rightarrow> error + entry option" where
  "return_sprite img = Inr (Some (convert_RGB img, AlphaBand (alpha_band img)))"

definition special_grass :: "pil \<Rightarrow> error + entry option" where
  "special_grass L =
     (let top' = tintTexture L (tile L 0) (115, 175, 71);
          img = build_block L top' (Some (tile L 3)) (Some 2)
      in return_sprite img)"

text \<open>Saplings: the two textures are local variables, unbound (\<open>None\<close>) until assigned.
  The first \<^verbatim>\<open>if\<close> stands alone; the \<^verbatim>\<open>else\<close> belongs to the second.\<close>

definition special_sapling :: "pil \<Rightarrow> int \<Rightarrow> int \<Rightarrow> error + entry option" where
  "special_sapling L blockID data =
     (let toptexture = None;
          sidetexture = None;
          (toptexture, sidetexture) =
             (if data = 1 then (Some (tile L 63), Some (tile L 63))
              else (toptexture, sidetexture));
          (toptexture, sidetexture) =
             (if data = 2 then (Some (tile L 79), Some (tile L 79))
              else (Some (tile L 15), Some (tile L 15)))
      in case (toptexture, sidetexture) of
           (Some toptexture, Some sidetexture) \<Rightarrow>
             (let img = build_block L toptexture (Some sidetexture) (Some blockID)
              in return_sprite img)
         | (None, _) \<Rightarrow> Inl (UnboundLocalError ''toptexture'')
         | (_, None) \<Rightarrow> Inl (UnboundLocalError ''sidetexture''))"

definition special_water :: "pil \<Rightarrow> int \<Rightarrow> error + entry option" where
  "special_water L data =
     (case load_image L ''water.png'' of
        Inl e \<Rightarrow> Inl e
      | Inr watertexture \<Rightarrow>
          (let top' = (if data AND 16 = 16 then Some watertexture else None);
               side1 = (if data AND 1 = 1 then Some watertexture else None);
               side2 = (if data AND 8 = 8 then Some watertexture else None);
               side3 = (if data AND 2 = 2 then Some watertexture else None);
               side4 = (if data AND 4 = 4 then Some watertexture else None);
               img = build_full_block L top' side1 side2 side3 side4 None None
           in return_sprite img))"

definition special_leaves :: "pil \<Rightarrow> error + entry option" where
  "special_leaves L =
     (let t = tintTexture L (tile L 52) (37, 118, 25);
          img = build_block L t (Some t) (Some 18)
      in return_sprite img)"

text \<open>Dispenser, furnace, lit furnace, pumpkin and jack-o-lantern share one shape: a top
  and two sides pasted without darkening. The three tiles differ.\<close>

definition special_dispenser :: "pil \<Rightarrow> error + entry option" where
  "special_dispenser L =
     (let top' = transform_image L (tile L 62) None;
          side1 = transform_image_side L (tile L 46) None;
          side2 = image_transpose FLIP_LEFT_RIGHT (transform_image_side L (tile L 45) None);
          img = image_new (24, 24) background;
          img = alpha_over L img side1 [0, 6] (Some side1);
          img = alpha_over L img side2 [12, 6] (Some side2);
          img = alpha_over L img top' [0, 0] (Some top')
      in return_sprite img)"

text \<open>Torches. \<open>img\<close> is bound by the branches for data 1 to 5 only; the
  \<^verbatim>\<open>return\<close> after them reads it whatever the data.\<close>

definition special_torch :: "pil \<Rightarrow> int \<Rightarrow> int \<Rightarrow> error + entry option" where
  "special_torch L blockID data =
     (let small = (if blockID = 50 then tile L 80
                   else if blockID = 75 then tile L 115
                   else tile L 99);
          torch = image_new (16, 16) background;
          torch = alpha_over L torch small [-4, -3] None;
          torch = alpha_over L torch small [-5, -2] None;
          torch = alpha_over L torch small [-3, -2] None;
          rotation = 15;
          img =
            (if data = 1
             then (let torch = image_rotate L torch (- rotation)
                   in Some (build_full_block L None None None (Some torch) None None (Some blockID)))
             else if data = 2
             then (let torch = image_rotate L torch rotation
                   in Some (build_full_block L None None (Some torch) None None None (Some blockID)))
             else if data = 3
             then (let torch = image_rotate L torch rotation
                   in Some (build_full_block L None (Some torch) None None None None (Some blockID)))
             else if data = 4
             then (let torch = image_rotate L torch (- rotation)
                   in Some (build_full_block L None None None None (Some torch) None (Some blockID)))
             else if data = 5
             then (let img = image_new (24, 24) background;
                       small_crop = image_crop small (2, 2, 14, 14);
                       slice = image_copy small_crop;
                       slice = draw_rectangle L slice [6, 0, 12, 12] [0, 0, 0, 0] [0, 0, 0, 0];
                       slice = draw_rectangle L slice [0, 0, 4, 12] [0, 0, 0, 0] [0, 0, 0, 0];
                       img = alpha_over L img slice [6, 4] None;
                       img = alpha_over L img small_crop [5, 5] None;
                       img = alpha_over L img small_crop [6, 5] None;
                       img = alpha_over L img slice [6, 6] None
                   in Some img)
             else None)
      in case img of
           None \<Rightarrow> Inl (UnboundLocalError ''img'')
         | Some img \<Rightarrow> return_sprite img)"

definition special_fire :: "pil \<Rightarrow> error + entry option" where
  "special_fire L =
     (case load_image L ''fire.png'' of
        Inl e \<Rightarrow> Inl e
      | Inr firetexture \<Rightarrow>
          (let side1 = transform_image_side L firetexture None;
               side2 = image_transpose FLIP_LEFT_RIGHT (transform_image_side L firetexture None);
               img = image_new (24, 24) background;
               img = alpha_over L img side1 [12, 0] (Some side1);
               img = alpha_over L img side2 [0, 0] (Some side2);
               img = alpha_over L img side1 [0, 6] (Some side1);
               img = alpha_over L img side2 [12, 6] (Some side2)
           in return_sprite img))"

text \<open>Stairs. \<open>img\<close> is bound by the branches for data 0 to 3 only. The block is
  53 or 67, so the \<^verbatim>\<open>elif blockID == 67\<close> of the source is the \<open>else\<close> here.\<close>

definition special_stairs :: "pil \<Rightarrow> int \<Rightarrow> int \<Rightarrow> error + entry option" where
  "special_stairs L blockID data =
     (let texture = (if blockID = 53 then tile L 4 else tile L 16);
          side = image_copy texture;
          half_block_u = image_copy texture;
          half_block_d = image_copy texture;
          half_block_l = image_copy texture;
          half_block_r = image_copy texture;
          side = draw_rectangle L side [0, 0, 7, 6] [0, 0, 0, 0] [0, 0, 0, 0];
          half_block_u = draw_rectangle L half_block_u [0, 8, 15, 15] [0, 0, 0, 0] [0, 0, 0, 0];
          half_block_d = draw_rectangle L half_block_d [0, 0, 15, 6] [0, 0, 0, 0] [0, 0, 0, 0];
          half_block_l = draw_rectangle L half_block_l [8, 0, 15, 15] [0, 0, 0, 0] [0, 0, 0, 0];
          half_block_r = draw_rectangle L half_block_r [0, 0, 7, 15] [0, 0, 0, 0] [0, 0, 0, 0];
          img =
            (if data = 0
             then (let img = build_full_block L (Some half_block_r) None None (Some half_block_d)
                               (Some (image_transpose FLIP_LEFT_RIGHT side)) None None;
                       tmp1 = transform_image_side L half_block_u None;
                       sidealpha = alpha_band tmp1;
                       tmp1 = brightness_enhance L tmp1 0.8;
                       tmp1 = putalpha tmp1 sidealpha;
                       img = alpha_over L img tmp1 [6, 3] None;
                       tmp2 = transform_image L half_block_l None;
                       img = alpha_over L img tmp2 [0, 6] None
                   in Some img)
             else if data = 1
             then (let img = image_new (24, 24) background;
                       tmp1 = transform_image L half_block_r None;
                       img = alpha_over L img tmp1 [0, 6] None;
                       tmp2 = build_full_block L (Some half_block_l) None None (Some texture)
                                (Some side) None None;
                       img = alpha_over L img tmp2 [0, 0] None
                   in Some img)
             else if data = 2
             then (let img = image_new (24, 24) background;
                       tmp1 = transform_image L half_block_u None;
                       img = alpha_over L img tmp1 [0, 6] None;
                       tmp2 = build_full_block L (Some half_block_d) None None (Some side)
                                (Some texture) None None;
                       img = alpha_over L img tmp2 [0, 0] None
                   in Some img)
             else if data = 3
             then (let img = build_full_block L (Some half_block_u) None None
                               (Some (image_transpose FLIP_LEFT_RIGHT side)) (Some half_block_d)
                               None None;
                       tmp1 = image_transpose FLIP_LEFT_RIGHT
                                (transform_image_side L half_block_u None);
                       sidealpha = alpha_band tmp1;
                       tmp1 = brightness_enhance L tmp1 0.7;
                       tmp1 = putalpha tmp1 sidealpha;
                       img = alpha_over L img tmp1 [6, 3] None;
                       tmp2 = transform_image L half_block_d None;
                       img = alpha_over L img tmp2 [0, 6] None;
                       img = putpixel img (18, 3) (0, 0, 0, 0)
                   in Some img)
             else None)
      in case img of
           None \<Rightarrow> Inl (UnboundLocalError ''img'')
         | Some img \<Rightarrow> return_sprite img)"

text \<open>Redstone wire: the two tinted tiles, then the bottom texture, then the block.\<close>

definition redstone_textures :: "pil \<Rightarrow> int \<Rightarrow> rgba image \<times> rgba image" where
  "redstone_textures L data =
     (if data AND 64 = 64
      then (let redstone_wire_t = tile L 165;
                redstone_wire_t = tintTexture L redstone_wire_t (255, 0, 0);
                redstone_cross_t = tile L 164;
                redstone_cross_t = tintTexture L redstone_cross_t (255, 0, 0)
            in (redstone_wire_t, redstone_cross_t))
      else (let redstone_wire_t = tile L 165;
                redstone_wire_t = tintTexture L redstone_wire_t (48, 0, 0);
                redstone_cross_t = tile L 164;
                redstone_cross_t = tintTexture L redstone_cross_t (48, 0, 0)
            in (redstone_wire_t, redstone_cross_t)))"

definition redstone_bottom :: "pil \<Rightarrow> int \<Rightarrow> rgba image \<Rightarrow> rgba image \<Rightarrow> rgba image" where
  "redstone_bottom L data redstone_wire_t redstone_cross_t =
     (let clear = [0, 0, 0, 0];
          branch_top_left = image_copy redstone_cross_t;
          branch_top_left = draw_rectangle L branch_top_left [0, 0, 4, 15] clear clear;
          branch_top_left = draw_rectangle L branch_top_left [11, 0, 15, 15] clear clear;
          branch_top_left = draw_rectangle L branch_top_left [0, 11, 15, 15] clear clear;
          branch_top_right = image_copy redstone_cross_t;
          branch_top_right = draw_rectangle L branch_top_right [0, 0, 15, 4] clear clear;
          branch_top_right = draw_rectangle L branch_top_right [0, 0, 4, 15] clear clear;
          branch_top_right = draw_rectangle L branch_top_right [0, 11, 15, 15] clear clear;
          branch_bottom_right = image_copy redstone_cross_t;
          branch_bottom_right = draw_rectangle L branch_bottom_right [0, 0, 15, 4] clear clear;
          branch_bottom_right = draw_rectangle L branch_bottom_right [0, 0, 4, 15] clear clear;
          branch_bottom_right = draw_rectangle L branch_bottom_right [11, 0, 15, 15] clear clear;
          branch_bottom_left = image_copy redstone_cross_t;
          branch_bottom_left = draw_rectangle L branch_bottom_left [0, 0, 15, 4] clear clear;
          branch_bottom_left = draw_rectangle L branch_bottom_left [11, 0, 15, 15] clear clear;
          branch_bottom_left = draw_rectangle L branch_bottom_left [0, 11, 15, 15] clear clear
      in if data AND 63 = 0 then image_copy redstone_cross_t
         else if data AND 15 = 10 then image_copy redstone_wire_t
         else if data AND 15 = 5 then image_rotate L (image_copy redstone_wire_t) 90
         else (let bottom = image_new (16, 16) background;
                   bottom = (if data AND 1 = 1
                             then alpha_over L bottom branch_top_left [0, 0] None else bottom);
                   bottom = (if data AND 8 = 8
                             then alpha_over L bottom branch_top_right [0, 0] None else bottom);
                   bottom = (if data AND 2 = 2
                             then alpha_over L bottom branch_bottom_left [0, 0] None else bottom);
                   bottom = (if data AND 4 = 4
                             then alpha_over L bottom branch_bottom_right [0, 0] None else bottom)
               in bottom))"

definition special_redstone :: "pil \<Rightarrow> int \<Rightarrow> error + entry option" where
  "special_redstone L data =
     (let (redstone_wire_t, redstone_cross_t) = redstone_textures L data;
          bottom = redstone_bottom L data redstone_wire_t redstone_cross_t;
          side1 = (if data AND 32 = 32 then Some (image_rotate L redstone_wire_t 90) else None);
          side2 = (if data AND 16 = 16 then Some (image_rotate L redstone_wire_t 90) else None);
          img = build_full_block L None side1 side2 None None (Some bottom) None
      in return_sprite img)"

definition special_crafting_table :: "pil \<Rightarrow> error + entry option" where
  "special_crafting_table L =
     (let top' = tile L 43;
          side3 = tile L (43 + 16);
          side4 = tile L (43 + 16 + 1);
          img = build_full_block L (Some top') None None (Some side3) (Some side4) None (Some 58)
      in return_sprite img)"

definition special_crops :: "pil \<Rightarrow> int \<Rightarrow> int \<Rightarrow> error + entry option" where
  "special_crops L blockID data =
     (case terrain_image L (88 + data) of
        Inl e \<Rightarrow> Inl e
      | Inr raw_crop \<Rightarrow>
          (let crop1 = transform_image L raw_crop (Some blockID);
               crop2 = transform_image_side L raw_crop (Some blockID);
               crop3 = image_transpose FLIP_LEFT_RIGHT crop2;
               img = image_new (24, 24) background;
               img = alpha_over L img crop1 [0, 12] (Some crop1);
               img = alpha_over L img crop2 [6, 3] (Some crop2);
               img = alpha_over L img crop3 [6, 3] (Some crop3)
           in return_sprite img))"

definition special_furnace :: "pil \<Rightarrow> error + entry option" where
  "special_furnace L =
     (let top' = transform_image L (tile L 62) None;
          side1 = transform_image_side L (tile L 45) None;
          side2 = image_transpose FLIP_LEFT_RIGHT (transform_image_side L (tile L 44) None);
          img = image_new (24, 24) background;
          img = alpha_over L img side1 [0, 6] (Some side1);
          img = alpha_over L img side2 [12, 6] (Some side2);
          img = alpha_over L img top' [0, 0] (Some top')
      in return_sprite img)"

definition special_lit_furnace :: "pil \<Rightarrow> error + entry option" where
  "special_lit_furnace L =
     (let top' = transform_image L (tile L 62) None;
          side1 = transform_image_side L (tile L 45) None;
          side2 = image_transpose FLIP_LEFT_RIGHT (transform_image_side L (tile L (45 + 16)) None);
          img = image_new (24, 24) background;
          img = alpha_over L img side1 [0, 6] (Some side1);
          img = alpha_over L img side2 [12, 6] (Some side2);
          img = alpha_over L img top' [0, 0] (Some top')
      in return_sprite img)"

definition special_door :: "pil \<Rightarrow> int \<Rightarrow> int \<Rightarrow> error + entry option" where
  "special_door L blockID data =
     (let raw_door = (if data AND 8 = 8
                      then tile L (if blockID = 64 then 81 else 82)
                      else tile L (if blockID = 64 then 97 else 98));
          swung = (if data AND 4 = 4 then True else False);
          img = image_new (24, 24) background;
          img = (if data AND 3 = 0
                 then (if \<not> swung
                       then (let tex = transform_image_side L raw_door None
                             in alpha_over L img tex [0, 6] (Some tex))
                       else (let tex = transform_image_side L
                                         (image_transpose FLIP_LEFT_RIGHT raw_door) None;
                                 tex = image_transpose FLIP_LEFT_RIGHT tex
                             in alpha_over L img tex [0, 0] (Some tex)))
                 else img);
          img = (if data AND 3 = 1
                 then (if \<not> swung
                       then (let tex = image_transpose FLIP_LEFT_RIGHT
                                         (transform_image_side L raw_door None)
                             in alpha_over L img tex [0, 0] (Some tex))
                       else (let tex = transform_image_side L raw_door None
                             in alpha_over L img tex [12, 0] (Some tex)))
                 else img);
          img = (if data AND 3 = 2
                 then (if \<not> swung
                       then (let tex = transform_image_side L
                                         (image_transpose FLIP_LEFT_RIGHT raw_door) None
                             in alpha_over L img tex [12, 0] (Some tex))
                       else (let tex = image_transpose FLIP_LEFT_RIGHT
                                         (transform_image_side L raw_door None)
                             in alpha_over L img tex [12, 6] (Some tex)))
                 else img);
          img = (if data AND 3 = 3
                 then (if \<not> swung
                       then (let tex = image_transpose FLIP_LEFT_RIGHT
                                         (transform_image_side L
                                            (image_transpose FLIP_LEFT_RIGHT raw_door) None)
                             in alpha_over L img tex [12, 6] (Some tex))
                       else (let tex = transform_image_side L
                                         (image_transpose FLIP_LEFT_RIGHT raw_door) None
                             in alpha_over L img tex [0, 6] (Some tex)))
                 else img)
      in return_sprite img)"

text \<open>Rails. The powered rail drops the powered bit of \<open>data\<close> before the orientation
  is read. Four slopes return early; every other orientation ends in the common paste.
  The source closes each choice of tiles with an \<^verbatim>\<open>elif\<close> that cannot fail
  (\<open>data AND 8\<close> is 0 or 8; the block is 27, 28 or 66): here it is the \<open>else\<close>.\<close>

definition special_rail :: "pil \<Rightarrow> int \<Rightarrow> int \<Rightarrow> error + entry option" where
  "special_rail L blockID data =
     (let (raw_straight, raw_corner, data) =
            (if blockID = 27
             then (let (raw_straight, raw_corner) =
                         (if data AND 8 = 0 then (tile L 163, tile L 112)
                          else (tile L 179, tile L 112));
                       data = data AND 7
                   in (raw_straight, raw_corner, data))
             else if blockID = 28 then (tile L 195, tile L 112, data)
             else (tile L 128, tile L 112, data));
          paste = (\<lambda>track.
                     let img = image_new (24, 24) background;
                         img = alpha_over L img track [0, 12] (Some track)
                     in return_sprite img)
      in if data = 0 then paste (transform_image L raw_straight (Some blockID))
         else if data = 6 then paste (transform_image L raw_corner (Some blockID))
         else if data = 7
         then paste (transform_image L (image_rotate L raw_corner 270) (Some blockID))
         else if data = 8
         then paste (transform_image L
                       (image_rotate L (image_transpose FLIP_TOP_BOTTOM raw_corner) 90)
                       (Some blockID))
         else if data = 9
         then paste (transform_image L (image_transpose FLIP_TOP_BOTTOM raw_corner)
                       (Some blockID))
         else if data = 1
         then paste (transform_image L (image_rotate L raw_straight 90) (Some blockID))
         else if data = 2
         then (let track = transform_image_slope L raw_straight (Some blockID);
                   track = image_transpose FLIP_LEFT_RIGHT track;
                   img = image_new (24, 24) background;
                   img = alpha_over L img track [2, 0] (Some track)
               in return_sprite img)
         else if data = 3
         then (let img = image_new (24, 24) background;
                   img = draw_line L img [(11, 11), (23, 17)] [164, 164, 164]
               in return_sprite img)
         else if data = 4
         then (let track = transform_image_slope L raw_straight (Some blockID);
                   img = image_new (24, 24) background;
                   img = alpha_over L img track [0, 0] (Some track)
               in return_sprite img)
         else if data = 5
         then (let img = image_new (24, 24) background;
                   img = draw_line L img [(1, 17), (12, 11)] [164, 164, 164]
               in return_sprite img)
         else paste (transform_image L raw_straight (Some blockID)))"

definition special_fence :: "pil \<Rightarrow> int \<Rightarrow> error + entry option" where
  "special_fence L data =
     (let raw_texture = tile L 4;
          raw_fence_top = image_new (16, 16) background;
          raw_fence_side = image_new (16, 16) background;
          fence_top_mask = image_new (16, 16) background;
          fence_side_mask = image_new (16, 16) background;
          fence_top_mask = draw_rectangle L fence_top_mask [6, 6, 9, 9] [0, 0, 0] [0, 0, 0];
          fence_side_mask = draw_rectangle L fence_side_mask [6, 1, 9, 15] [0, 0, 0] [0, 0, 0];
          raw_fence_top = alpha_over L raw_fence_top raw_texture [0, 0] (Some fence_top_mask);
          raw_fence_side = alpha_over L raw_fence_side raw_texture [0, 0] (Some fence_side_mask);
          fence_side = transform_image_side L raw_fence_side (Some 85);
          fence_other_side = image_transpose FLIP_LEFT_RIGHT fence_side;
          fence_top = transform_image L raw_fence_top (Some 85);
          sidealpha = alpha_band fence_side;
          fence_side = brightness_enhance L fence_side 0.9;
          fence_side = putalpha fence_side sidealpha;
          othersidealpha = alpha_band fence_other_side;
          fence_other_side = brightness_enhance L fence_other_side 0.8;
          fence_other_side = putalpha fence_other_side othersidealpha;
          fence_big = image_new (24, 24) background;
          fence_big = alpha_over L fence_big fence_side [5, 4] (Some fence_side);
          fence_big = alpha_over L fence_big fence_other_side [7, 4] (Some fence_other_side);
          fence_big = alpha_over L fence_big fence_top [0, 1] (Some fence_top);
          raw_fence_small_side = image_new (16, 16) background;
          fence_small_side_mask = image_new (16, 16) background;
          fence_small_side_mask =
            draw_rectangle L fence_small_side_mask [10, 1, 15, 3] [0, 0, 0] [0, 0, 0];
          fence_small_side_mask =
            draw_rectangle L fence_small_side_mask [10, 7, 15, 9] [0, 0, 0] [0, 0, 0];
          raw_fence_small_side =
            alpha_over L raw_fence_small_side raw_texture [0, 0] (Some fence_small_side_mask);
          fence_small_side = transform_image_side L raw_fence_small_side (Some 85);
          fence_small_other_side = image_transpose FLIP_LEFT_RIGHT fence_small_side;
          sidealpha = alpha_band fence_small_other_side;
          fence_small_other_side = brightness_enhance L fence_small_other_side 0.9;
          fence_small_other_side = putalpha fence_small_other_side sidealpha;
          sidealpha = alpha_band fence_small_side;
          fence_small_side = brightness_enhance L fence_small_side 0.9;
          fence_small_side = putalpha fence_small_side sidealpha;
          img = image_new (24, 24) background;
          pos_top_left = [-2, 0];
          pos_top_right = [14, 0];
          pos_bottom_right = [6, 4];
          pos_bottom_left = [6, 4];
          img = (if data AND 1 = 1
                 then alpha_over L img fence_small_side pos_top_left (Some fence_small_side)
                 else img);
          img = (if data AND 8 = 8
                 then alpha_over L img fence_small_other_side pos_top_right
                        (Some fence_small_other_side)
                 else img);
          img = alpha_over L img fence_big [0, 0] (Some fence_big);
          img = (if data AND 2 = 2
                 then alpha_over L img fence_small_other_side pos_bottom_left
                        (Some fence_small_other_side)
                 else img);
          img = (if data AND 4 = 4
                 then alpha_over L img fence_small_side pos_bottom_right (Some fence_small_side)
                 else img)
      in return_sprite img)"

definition special_pumpkin :: "pil \<Rightarrow> int \<Rightarrow> error + entry option" where
  "special_pumpkin L blockID =
     (let top' = transform_image L (tile L 102) None;
          frontID = (if blockID = 86 then 119 else 120);
          side1 = transform_image_side L (tile L frontID) None;
          side2 = image_transpose FLIP_LEFT_RIGHT (transform_image_side L (tile L 118) None);
          img = image_new (24, 24) background;
          img = alpha_over L img side1 [0, 6] (Some side1);
          img = alpha_over L img side2 [12, 6] (Some side2);
          img = alpha_over L img top' [0, 0] (Some top')
      in return_sprite img)"

definition special_cake :: "pil \<Rightarrow> int \<Rightarrow> error + entry option" where
  "special_cake L blockID =
     (let top' = tile L 121;
          side = tile L 122;
          top' = transform_image L top' (Some blockID);
          side = transform_image_side L side (Some blockID);
          otherside = image_transpose FLIP_LEFT_RIGHT side;
          sidealpha = alpha_band side;
          side = brightness_enhance L side 0.9;
          side = putalpha side sidealpha;
          othersidealpha = alpha_band otherside;
          otherside = brightness_enhance L otherside 0.8;
          otherside = putalpha otherside othersidealpha;
          img = image_new (24, 24) background;
          img = alpha_over L img side [2, 12] (Some side);
          img = alpha_over L img otherside [10, 12] (Some otherside);
          img = alpha_over L img top' [0, 8] (Some top')
      in return_sprite img)"

subsection \<open>The sequence of tests\<close>

text \<open>
  \<open>gst_from_n\<close> is the function body from the test of block \<open>n\<close> to its end. A body
  that returns in no case (wood, wool, slabs, ladders, for a data value it does not
  list) goes on with the tests that follow it, and the last statement is
  \<^verbatim>\<open>return None\<close>. The definitions come last test first.
\<close>

definition gst_from_92 :: "pil \<Rightarrow> int \<Rightarrow> int \<Rightarrow> error + entry option" where
  "gst_from_92 L blockID data =
     (if blockID = 92 then special_cake L blockID
      else Inr None)"

definition gst_from_86 :: "pil \<Rightarrow> int \<Rightarrow> int \<Rightarrow> error + entry option" where
  "gst_from_86 L blockID data =
     (if blockID = 86 \<or> blockID = 91 then special_pumpkin L blockID
      else gst_from_92 L blockID data)"

definition gst_from_85 :: "pil \<Rightarrow> int \<Rightarrow> int \<Rightarrow> error + entry option" where
  "gst_from_85 L blockID data =
     (if blockID = 85 then special_fence L data
      else gst_from_86 L blockID data)"

definition gst_from_27 :: "pil \<Rightarrow> int \<Rightarrow> int \<Rightarrow> error + entry option" where
  "gst_from_27 L blockID data =
     (if blockID = 27 \<or> blockID = 28 \<or> blockID = 66 then special_rail L blockID data
      else gst_from_85 L blockID data)"

definition gst_from_65 :: "pil \<Rightarrow> int \<Rightarrow> int \<Rightarrow> error + entry option" where
  "gst_from_65 L blockID data =
     (if blockID = 65
      then (let raw_texture = tile L 83
            in if data = 5
               then (let tex = transform_image_side L raw_texture None;
                         img = image_new (24, 24) background;
                         img = alpha_over L img tex [0, 6] (Some tex)
                     in return_sprite img)
               else if data = 2
               then (let tex = image_transpose FLIP_LEFT_RIGHT
                                 (transform_image_side L raw_texture None);
                         img = image_new (24, 24) background;
                         img = alpha_over L img tex [12, 6] (Some tex)
                     in return_sprite img)
               else if data = 3
               then (let tex = image_transpose FLIP_LEFT_RIGHT
                                 (transform_image_side L raw_texture None);
                         img = image_new (24, 24) background;
                         img = alpha_over L img tex [0, 0] (Some tex)
                     in return_sprite img)
               else if data = 4
               then (let tex = transform_image_side L raw_texture None;
                         img = image_new (24, 24) background;
                         img = alpha_over L img tex [12, 0] (Some tex)
                     in return_sprite img)
               else gst_from_27 L blockID data)
      else gst_from_27 L blockID data)"

definition gst_from_64 :: "pil \<Rightarrow> int \<Rightarrow> int \<Rightarrow> error + entry option" where
  "gst_from_64 L blockID data =
     (if blockID = 64 \<or> blockID = 71 then special_door L blockID data
      else gst_from_65 L blockID data)"

definition gst_from_62 :: "pil \<Rightarrow> int \<Rightarrow> int \<Rightarrow> error + entry option" where
  "gst_from_62 L blockID data =
     (if blockID = 62 then special_lit_furnace L
      else gst_from_64 L blockID data)"

definition gst_from_61 :: "pil \<Rightarrow> int \<Rightarrow> int \<Rightarrow> error + entry option" where
  "gst_from_61 L blockID data =
     (if blockID = 61 then special_furnace L
      else gst_from_62 L blockID data)"

definition gst_from_59 :: "pil \<Rightarrow> int \<Rightarrow> int \<Rightarrow> error + entry option" where
  "gst_from_59 L blockID data =
     (if blockID = 59 then special_crops L blockID data
      else gst_from_61 L blockID data)"

definition gst_from_58 :: "pil \<Rightarrow> int \<Rightarrow> int \<Rightarrow> error + entry option" where
  "gst_from_58 L blockID data =
     (if blockID = 58 then special_crafting_table L
      else gst_from_59 L blockID data)"

definition gst_from_55 :: "pil \<Rightarrow> int \<Rightarrow> int \<Rightarrow> error + entry option" where
  "gst_from_55 L blockID data =
     (if blockID = 55 then special_redstone L data
      else gst_from_58 L blockID data)"

definition gst_from_53 :: "pil \<Rightarrow> int \<Rightarrow> int \<Rightarrow> error + entry option" where
  "gst_from_53 L blockID data =
     (if blockID = 53 \<or> blockID = 67 then special_stairs L blockID data
      else gst_from_55 L blockID data)"

definition gst_from_51 :: "pil \<Rightarrow> int \<Rightarrow> int \<Rightarrow> error + entry option" where
  "gst_from_51 L blockID data =
     (if blockID = 51 then special_fire L
      else gst_from_53 L blockID data)"

definition gst_from_50 :: "pil \<Rightarrow> int \<Rightarrow> int \<Rightarrow> error + entry option" where
  "gst_from_50 L blockID data =
     (if blockID = 50 \<or> blockID = 75 \<or> blockID = 76 then special_torch L blockID data
      else gst_from_51 L blockID data)"

definition gst_from_43 :: "pil \<Rightarrow> int \<Rightarrow> int \<Rightarrow> error + entry option" where
  "gst_from_43 L blockID data =
     (if blockID = 43 \<or> blockID = 44
      then (if data = 0
            then (let top' = tile L 6;
                      side = tile L 5;
                      img = build_block L top' (Some side) (Some blockID)
                  in return_sprite img)
            else if data = 1
            then (let top' = tile L 176;
                      side = tile L 192;
                      img = build_block L top' (Some side) (Some blockID)
                  in return_sprite img)
            else if data = 2
            then (let top' = tile L 4;
                      side = tile L 4;
                      img = build_block L top' (Some side) (Some blockID)
                  in return_sprite img)
            else if data = 3
            then (let top' = tile L 16;
                      side = tile L 16;
                      img = build_block L top' (Some side) (Some blockID)
                  in return_sprite img)
            else gst_from_50 L blockID data)
      else gst_from_50 L blockID data)"

text \<open>Wool: one tile per colour, top and side alike.\<close>

definition wool_block :: "pil \<Rightarrow> nat \<Rightarrow> error + entry option" where
  "wool_block L n =
     (let top' = tile L n;
          side = tile L n;
          img = build_block L top' (Some side) (Some 35)
      in return_sprite img)"

definition gst_from_35 :: "pil \<Rightarrow> int \<Rightarrow> int \<Rightarrow> error + entry option" where
  "gst_from_35 L blockID data =
     (if blockID = 35
      then (if data = 0 then wool_block L 64
            else if data = 1 then wool_block L 210
            else if data = 2 then wool_block L 194
            else if data = 3 then wool_block L 178
            else if data = 4 then wool_block L 162
            else if data = 5 then wool_block L 146
            else if data = 6 then wool_block L 130
            else if data = 7 then wool_block L 114
            else if data = 8 then wool_block L 225
            else if data = 9 then wool_block L 209
            else if data = 10 then wool_block L 193
            else if data = 11 then wool_block L 177
            else if data = 12 then wool_block L 161
            else if data = 13 then wool_block L 145
            else if data = 14 then wool_block L 129
            else if data = 15 then wool_block L 113
            else gst_from_43 L blockID data)
      else gst_from_43 L blockID data)"

definition gst_from_23 :: "pil \<Rightarrow> int \<Rightarrow> int \<Rightarrow> error + entry option" where
  "gst_from_23 L blockID data =
     (if blockID = 23 then special_dispenser L
      else gst_from_35 L blockID data)"

definition gst_from_18 :: "pil \<Rightarrow> int \<Rightarrow> int \<Rightarrow> error + entry option" where
  "gst_from_18 L blockID data =
     (if blockID = 18 then special_leaves L
      else gst_from_23 L blockID data)"

definition gst_from_17 :: "pil \<Rightarrow> int \<Rightarrow> int \<Rightarrow> error + entry option" where
  "gst_from_17 L blockID data =
     (if blockID = 17
      then (let top' = tile L 21
            in if data = 0
               then (let side = tile L 20;
                         img = build_block L top' (Some side) (Some 17)
                     in return_sprite img)
               else if data = 1
               then (let side = tile L 116;
                         img = build_block L top' (Some side) (Some 17)
                     in return_sprite img)
               else if data = 2
               then (let side = tile L 117;
                         img = build_block L top' (Some side) (Some 17)
                     in return_sprite img)
               else gst_from_18 L blockID data)
      else gst_from_18 L blockID data)"

definition gst_from_9 :: "pil \<Rightarrow> int \<Rightarrow> int \<Rightarrow> error + entry option" where
  "gst_from_9 L blockID data =
     (if blockID = 9 then special_water L data
      else gst_from_17 L blockID data)"

definition gst_from_6 :: "pil \<Rightarrow> int \<Rightarrow> int \<Rightarrow> error + entry option" where
  "gst_from_6 L blockID data =
     (if blockID = 6 then special_sapling L blockID data
      else gst_from_9 L blockID data)"

definition generate_special_texture :: "pil \<Rightarrow> int \<Rightarrow> int \<Rightarrow> error + entry option" where
  "generate_special_texture L blockID data =
     (if blockID = 2 then special_grass L
      else gst_from_6 L blockID data)"

section \<open>The cache of special blocks\<close>

text \<open>\<^verbatim>\<open>range(n)\<close>.\<close>

definition py_range :: "nat \<Rightarrow> int list" where
  "py_range n = map int [0..<n]"

text \<open>The set \<^verbatim>\<open>special_blocks\<close>, listed as written.\<close>

definition special_blocks :: "int list" where
  "special_blocks =
     [ 2,  6,  9, 17, 18, 23, 27, 28, 35, 43, 44, 50, 51,
      53, 55, 58, 59, 61, 62, 64, 65, 66, 67, 71, 75, 76,
      85, 86, 91, 92]"

text \<open>The dictionary \<^verbatim>\<open>special_map\<close>, in the order of its assignments (no key is
  assigned twice).\<close>

definition special_map :: "int \<rightharpoonup> int list" where
  "special_map = map_of
     [(6, py_range 4), (9, py_range 32), (17, py_range 4), (23, py_range 6),
      (27, py_range 14), (28, py_range 6), (35, py_range 16), (43, py_range 4),
      (44, py_range 4), (50, [1, 2, 3, 4, 5]), (51, py_range 16), (53, py_range 4),
      (55, py_range 128), (58, [0]), (59, py_range 8), (61, py_range 6),
      (62, py_range 6), (64, py_range 16), (65, [2, 3, 4, 5]), (66, py_range 10),
      (67, py_range 4), (71, py_range 16), (75, [1, 2, 3, 4, 5]), (76, [1, 2, 3, 4, 5]),
      (85, py_range 17), (86, py_range 5), (91, py_range 5), (92, py_range 6),
      (2, py_range 11), (18, py_range 16)]"

text \<open>The two nested loops that fill \<^verbatim>\<open>specialblockmap\<close>: the inner one over the data
  values of a block, the outer one over the blocks. An error raised by the generator,
  or a block without an entry in \<^verbatim>\<open>special_map\<close>, ends them.\<close>

fun fill_data ::
  "pil \<Rightarrow> int \<Rightarrow> int list \<Rightarrow> (int \<times> int \<rightharpoonup> entry option) \<Rightarrow>
   error + (int \<times> int \<rightharpoonup> entry option)" where
  "fill_data L blockID [] specialblockmap = Inr specialblockmap"
| "fill_data L blockID (data # rest) specialblockmap =
     (case generate_special_texture L blockID data of
        Inl e \<Rightarrow> Inl e
      | Inr v \<Rightarrow> fill_data L blockID rest (specialblockmap((blockID, data) \<mapsto> v)))"

fun fill_blocks ::
  "pil \<Rightarrow> int list \<Rightarrow> (int \<times> int \<rightharpoonup> entry option) \<Rightarrow>
   error + (int \<times> int \<rightharpoonup> entry option)" where
  "fill_blocks L [] specialblockmap = Inr specialblockmap"
| "fill_blocks L (blockID # rest) specialblockmap =
     (case special_map blockID of
        None \<Rightarrow> Inl KeyError
      | Some datas \<Rightarrow>
          (case fill_data L blockID datas specialblockmap of
             Inl e \<Rightarrow> Inl e
           | Inr specialblockmap \<Rightarrow> fill_blocks L rest specialblockmap))"

definition specialblockmap :: "pil \<Rightarrow> error + (int \<times> int \<rightharpoonup> entry option)" where
  "specialblockmap L = fill_blocks L special_blocks Map.empty"

section \<open>A sample collaborator\<close>

text \<open>A concrete \<open>pil\<close>, to instantiate the theorems below at concrete inputs: the atlas is
  a black 256 by 256 image, every file opens as a 16 by 16 half-transparent blue image,
  and every filter copies the pixel it is asked for.\<close>

definition flat_pil :: pil where
  "flat_pil =
     \<lparr>terrain_png = image_new (256, 256) (0, 0, 0, 255),
      decode_file = (\<lambda>name. Some (image_new (16, 16) (0, 0, 255, 128))),
      resize_px = (\<lambda>img sz p. px img p),
      affine_px = (\<lambda>img sz coeffs p. px img p),
      extent_px = (\<lambda>img sz box p. px img p),
      rotate_px = (\<lambda>img angle p. px img p),
      brightness_px = (\<lambda>factor c. c),
      grayscale_px = (\<lambda>(r, g, b, a). g),
      colorize_px = (\<lambda>v black white. (v, v, v)),
      over_px = (\<lambda>dest src pos_or_rect msk p. px src p),
      rectangle_px = (\<lambda>img box outline fill p. px img p),
      line_px = (\<lambda>img points fill p. px img p)\<rparr>"

text \<open>What one round of the loop of \<^verbatim>\<open>_build_blockimages\<close> appends, when both texture
  ids index the atlas.\<close>

definition plain_entry :: "pil \<Rightarrow> int \<times> int \<times> int \<Rightarrow> entry option" where
  "plain_entry L = (\<lambda>(t, s, b).
     if t = -1 \<or> s = -1 then None
     else Some (sprite_entry (build_block L (tile L (nat t)) (Some (tile L (nat s))) (Some b))))"

section \<open>Facts about the atlas and the plain cubes\<close>

lemma length_terrain_images: "length (terrain_images L) = 256"
  by (simp add: terrain_images_def split_terrain_def Let_def length_concat comp_def
      sum_list_triv)

lemma terrain_image_in_range:
  "0 \<le> i \<Longrightarrow> i < 256 \<Longrightarrow> terrain_image L i = Inr (tile L (nat i))"
  by (simp add: terrain_image_def length_terrain_images tile_def)

lemma blockimages_loop_eq:
  "list_all (\<lambda>(t, s, b). -1 \<le> t \<and> t < 256 \<and> -1 \<le> s \<and> s < 256) xs \<Longrightarrow>
   blockimages_loop L xs acc = Inr (acc @ map (plain_entry L) xs)"
proof (induction xs arbitrary: acc)
  case Nil
  then show ?case by simp
next
  case (Cons x xs)
  obtain t s b where x: "x = (t, s, b)" by (cases x) auto
  from Cons.prems have r: "-1 \<le> t" "t < 256" "-1 \<le> s" "s < 256"
    and rest: "list_all (\<lambda>(t, s, b). -1 \<le> t \<and> t < 256 \<and> -1 \<le> s \<and> s < 256) xs"
    by (simp_all add: x)
  show ?case
  proof (cases "t = -1 \<or> s = -1")
    case True
    then show ?thesis using Cons.IH [OF rest] by (auto simp add: x plain_entry_def)
  next
    case False
    then have "0 \<le> t" "0 \<le> s" using r by auto
    then show ?thesis using False r Cons.IH [OF rest]
      by (simp add: x plain_entry_def terrain_image_in_range sprite_entry_def Let_def)
  qed
qed

lemma future_blocks_eq:
  "future_blocks xs = xs @ replicate (256 - length xs) None"
proof (induction xs rule: future_blocks.induct)
  case (1 allimages)
  show ?case
  proof (cases "length allimages < 256")
    case True
    then have "256 - length allimages = Suc (256 - length (allimages @ [None]))" by simp
    then show ?thesis using True "1.IH"
      by (subst future_blocks.simps) (simp add: replicate_app_Cons_same)
  next
    case False
    then show ?thesis by (subst future_blocks.simps) simp
  qed
qed

lemma texture_ids_in_range:
  "list_all (\<lambda>(t, s, b). -1 \<le> t \<and> t < 256 \<and> -1 \<le> s \<and> s < 256)
     (zip topids (zip sideids (map int [0..<length topids])))"
  by (simp add: topids_def sideids_def upt_rec)

lemma build_blockimages_eq:
  "build_blockimages L =
     Inr (map (plain_entry L) (zip topids (zip sideids (map int [0..<length topids])))
          @ replicate (256 - length topids) None)"
proof -
  have eq: "length topids = length sideids"
    by (simp add: topids_def sideids_def)
  have loop: "blockimages_loop L (zip topids (zip sideids (map int [0..<length topids]))) [] =
      Inr (map (plain_entry L) (zip topids (zip sideids (map int [0..<length topids]))))"
    using blockimages_loop_eq [OF texture_ids_in_range, of L "[]"] by (simp only: append_Nil)
  have l: "length (map (plain_entry L) (zip topids (zip sideids (map int [0..<length topids]))))
     = length topids"
    by (simp only: length_map length_zip eq min.idem length_upt diff_zero)
  have ne: "(length topids \<noteq> length sideids) = False"
    using eq by simp
  show ?thesis
    by (simp only: build_blockimages_def ne loop future_blocks_eq l sum.case if_False)
qed

lemma plain_entry_band:
  "plain_entry L x = None \<or> (\<exists>img. plain_entry L x = Some (sprite_entry img))"
  by (cases x) (auto simp add: plain_entry_def)

lemma build_blockimages_entries:
  assumes "build_blockimages L = Inr xs"
  shows "length xs = 256"
    and "\<And>k. k < 256 \<Longrightarrow> xs ! k = None \<or> (\<exists>img. xs ! k = Some (sprite_entry img))"
proof -
  define ys where
    "ys = map (plain_entry L) (zip topids (zip sideids (map int [0..<length topids])))"
  have len: "length topids = 92" "length sideids = 92"
    by (simp_all add: topids_def sideids_def)
  have ly: "length ys = 92" by (simp add: ys_def len)
  have "Inr xs = (Inr (ys @ replicate (256 - length topids) None) :: error + entry option list)"
    using assms build_blockimages_eq [of L] by (simp add: ys_def)
  then have xs: "xs = ys @ replicate (256 - length ys) None"
    by (simp add: ly len)
  show "length xs = 256" by (simp add: xs ly)
  fix k :: nat assume k: "k < 256"
  show "xs ! k = None \<or> (\<exists>img. xs ! k = Some (sprite_entry img))"
  proof (cases "k < length ys")
    case True
    then have "xs ! k =
        plain_entry L (zip topids (zip sideids (map int [0..<length topids])) ! k)"
      by (simp add: xs nth_append ys_def)
    then show ?thesis using plain_entry_band by metis
  next
    case False
    then have "xs ! k = None" using k ly by (simp add: xs nth_append)
    then show ?thesis by simp
  qed
qed

lemma load_water_eq:
  assumes w: "decode_file L ''water.png'' = Some watertexture"
    and l: "decode_file L ''lava.png'' = Some lavatexture"
  shows "load_water L xs =
     Inr (xs[9 := Some (convert_RGB (build_block L watertexture None None),
                        FullImage (build_block L watertexture None None)),
             8 := Some (convert_RGB (build_block L watertexture (Some watertexture) None),
                        FullImage (build_block L watertexture (Some watertexture) None)),
             10 := Some (convert_RGB (build_block L lavatexture (Some lavatexture) None),
                         FullImage (build_block L lavatexture (Some lavatexture) None)),
             11 := xs[9 := Some (convert_RGB (build_block L watertexture None None),
                        FullImage (build_block L watertexture None None)),
             8 := Some (convert_RGB (build_block L watertexture (Some watertexture) None),
                        FullImage (build_block L watertexture (Some watertexture) None)),
             10 := Some (convert_RGB (build_block L lavatexture (Some lavatexture) None),
                         FullImage (build_block L lavatexture (Some lavatexture) None))] ! 10])"
  by (simp add: load_water_def load_image_def w l Let_def)

section \<open>Facts about the cube builders\<close>

lemma px_touch_up:
  "px (touch_up img) =
     (px img)((13, 23) := px img (12, 23), (17, 21) := px img (16, 21),
              (21, 19) := px img (20, 19), (3, 4) := px img (4, 4),
              (7, 2) := px img (8, 2), (11, 0) := px img (12, 0))"
  by (simp add: touch_up_def putpixel_def getpixel_def Let_def)

lemma build_block_default:
  assumes "blockID \<notin> {Some 37, Some 38, Some 6, Some 39, Some 40, Some 83,
                      Some 81, Some 44, Some 78}"
  shows "build_block L top' (Some side) blockID =
     touch_up
       (let s = transform_image_side L side blockID;
            t = transform_image L top' blockID;
            img = image_new (24, 24) background;
            img = alpha_over L img (fst (build_block_sides L s)) [0, 6]
                    (Some (fst (build_block_sides L s)));
            img = alpha_over L img (snd (build_block_sides L s)) [12, 6]
                    (Some (snd (build_block_sides L s)));
            img = alpha_over L img t [0, 0] (Some t)
        in img)"
  using assms by (simp add: build_block_def build_block_placed_def Let_def split_def)

section \<open>Facts about the variant generator\<close>

lemmas gst_defs = generate_special_texture_def gst_from_6_def gst_from_9_def gst_from_17_def
  gst_from_18_def gst_from_23_def gst_from_35_def gst_from_43_def gst_from_50_def
  gst_from_51_def gst_from_53_def gst_from_55_def gst_from_58_def gst_from_59_def
  gst_from_61_def gst_from_62_def gst_from_64_def gst_from_65_def gst_from_27_def
  gst_from_85_def gst_from_86_def gst_from_92_def

lemma and_15_of_and_63: "(data::int) AND 15 = (data AND 63) AND 15"
  by (simp add: and.assoc)

text \<open>The generator on the declared domain of each special block: it returns a sprite,
  but for wood with data 3. Water and fire need their texture files.\<close>

lemma special_map_lookup:
  "special_map 2 = Some (py_range 11)"
  "special_map 6 = Some (py_range 4)"
  "special_map 9 = Some (py_range 32)"
  "special_map 17 = Some (py_range 4)"
  "special_map 18 = Some (py_range 16)"
  "special_map 23 = Some (py_range 6)"
  "special_map 27 = Some (py_range 14)"
  "special_map 28 = Some (py_range 6)"
  "special_map 35 = Some (py_range 16)"
  "special_map 43 = Some (py_range 4)"
  "special_map 44 = Some (py_range 4)"
  "special_map 50 = Some ([1, 2, 3, 4, 5])"
  "special_map 51 = Some (py_range 16)"
  "special_map 53 = Some (py_range 4)"
  "special_map 55 = Some (py_range 128)"
  "special_map 58 = Some ([0])"
  "special_map 59 = Some (py_range 8)"
  "special_map 61 = Some (py_range 6)"
  "special_map 62 = Some (py_range 6)"
  "special_map 64 = Some (py_range 16)"
  "special_map 65 = Some ([2, 3, 4, 5])"
  "special_map 66 = Some (py_range 10)"
  "special_map 67 = Some (py_range 4)"
  "special_map 71 = Some (py_range 16)"
  "special_map 75 = Some ([1, 2, 3, 4, 5])"
  "special_map 76 = Some ([1, 2, 3, 4, 5])"
  "special_map 85 = Some (py_range 17)"
  "special_map 86 = Some (py_range 5)"
  "special_map 91 = Some (py_range 5)"
  "special_map 92 = Some (py_range 6)"
  by (simp_all add: special_map_def)

lemma py_range_values:
  "py_range 4 = [0, 1, 2, 3]"
  "py_range 8 = [0, 1, 2, 3, 4, 5, 6, 7]"
  "py_range 16 = [0, 1, 2, 3, 4, 5, 6, 7, 8, 9, 10, 11, 12, 13, 14, 15]"
  by (simp_all add: py_range_def upt_rec)

lemma generate_2:
  "\<exists>e. generate_special_texture L 2 d = Inr (Some e)"
  by (simp add: gst_defs special_grass_def return_sprite_def Let_def split_def)

lemma generate_6:
  "\<exists>e. generate_special_texture L 6 d = Inr (Some e)"
  by (simp add: gst_defs special_sapling_def return_sprite_def Let_def split_def)

lemma generate_9:
  assumes "decode_file L ''water.png'' = Some wt"
  shows "\<exists>e. generate_special_texture L 9 d = Inr (Some e)"
  using assms
  by (simp add: gst_defs special_water_def load_image_def return_sprite_def Let_def split_def)

lemma generate_17:
  assumes "d \<in> set (py_range 4)"
  shows "(d = 3 \<and> generate_special_texture L 17 d = Inr None)
       \<or> (d \<noteq> 3 \<and> (\<exists>e. generate_special_texture L 17 d = Inr (Some e)))"
  using assms by (auto simp add: py_range_values gst_defs return_sprite_def Let_def)

lemma generate_18:
  "\<exists>e. generate_special_texture L 18 d = Inr (Some e)"
  by (simp add: gst_defs special_leaves_def return_sprite_def Let_def split_def)

lemma generate_23:
  "\<exists>e. generate_special_texture L 23 d = Inr (Some e)"
  by (simp add: gst_defs special_dispenser_def return_sprite_def Let_def split_def)

lemma generate_27:
  "\<exists>e. generate_special_texture L 27 d = Inr (Some e)"
  by (simp add: gst_defs special_rail_def return_sprite_def Let_def split_def)

lemma generate_28:
  "\<exists>e. generate_special_texture L 28 d = Inr (Some e)"
  by (simp add: gst_defs special_rail_def return_sprite_def Let_def split_def)

lemma generate_35:
  assumes "d \<in> set (py_range 16)"
  shows "\<exists>e. generate_special_texture L 35 d = Inr (Some e)"
  using assms by (auto simp add: py_range_values gst_defs wool_block_def return_sprite_def Let_def)

lemma generate_43:
  assumes "d \<in> set (py_range 4)"
  shows "\<exists>e. generate_special_texture L 43 d = Inr (Some e)"
  using assms by (auto simp add: py_range_values gst_defs  return_sprite_def Let_def)

lemma generate_44:
  assumes "d \<in> set (py_range 4)"
  shows "\<exists>e. generate_special_texture L 44 d = Inr (Some e)"
  using assms by (auto simp add: py_range_values gst_defs  return_sprite_def Let_def)

lemma generate_50:
  assumes "d \<in> set ([1, 2, 3, 4, 5])"
  shows "\<exists>e. generate_special_texture L 50 d = Inr (Some e)"
  using assms by (auto simp add: py_range_values gst_defs special_torch_def return_sprite_def Let_def)

lemma generate_51:
  assumes "decode_file L ''fire.png'' = Some ft"
  shows "\<exists>e. generate_special_texture L 51 d = Inr (Some e)"
  using assms
  by (simp add: gst_defs special_fire_def load_image_def return_sprite_def Let_def split_def)

lemma generate_53:
  assumes "d \<in> set (py_range 4)"
  shows "\<exists>e. generate_special_texture L 53 d = Inr (Some e)"
  using assms by (auto simp add: py_range_values gst_defs special_stairs_def return_sprite_def Let_def)

lemma generate_55:
  "\<exists>e. generate_special_texture L 55 d = Inr (Some e)"
  by (simp add: gst_defs special_redstone_def return_sprite_def Let_def split_def)

lemma generate_58:
  "\<exists>e. generate_special_texture L 58 d = Inr (Some e)"
  by (simp add: gst_defs special_crafting_table_def return_sprite_def Let_def split_def)

lemma generate_59:
  assumes "d \<in> set (py_range 8)"
  shows "\<exists>e. generate_special_texture L 59 d = Inr (Some e)"
  using assms by (auto simp add: py_range_values gst_defs special_crops_def terrain_image_in_range return_sprite_def Let_def)

lemma generate_61:
  "\<exists>e. generate_special_texture L 61 d = Inr (Some e)"
  by (simp add: gst_defs special_furnace_def return_sprite_def Let_def split_def)

lemma generate_62:
  "\<exists>e. generate_special_texture L 62 d = Inr (Some e)"
  by (simp add: gst_defs special_lit_furnace_def return_sprite_def Let_def split_def)

lemma generate_64:
  "\<exists>e. generate_special_texture L 64 d = Inr (Some e)"
  by (simp add: gst_defs special_door_def return_sprite_def Let_def split_def)

lemma generate_65:
  assumes "d \<in> set ([2, 3, 4, 5])"
  shows "\<exists>e. generate_special_texture L 65 d = Inr (Some e)"
  using assms by (auto simp add: py_range_values gst_defs  return_sprite_def Let_def)

lemma generate_66:
  "\<exists>e. generate_special_texture L 66 d = Inr (Some e)"
  by (simp add: gst_defs special_rail_def return_sprite_def Let_def split_def)

lemma generate_67:
  assumes "d \<in> set (py_range 4)"
  shows "\<exists>e. generate_special_texture L 67 d = Inr (Some e)"
  using assms by (auto simp add: py_range_values gst_defs special_stairs_def return_sprite_def Let_def)

lemma generate_71:
  "\<exists>e. generate_special_texture L 71 d = Inr (Some e)"
  by (simp add: gst_defs special_door_def return_sprite_def Let_def split_def)

lemma generate_75:
  assumes "d \<in> set ([1, 2, 3, 4, 5])"
  shows "\<exists>e. generate_special_texture L 75 d = Inr (Some e)"
  using assms by (auto simp add: py_range_values gst_defs special_torch_def return_sprite_def Let_def)

lemma generate_76:
  assumes "d \<in> set ([1, 2, 3, 4, 5])"
  shows "\<exists>e. generate_special_texture L 76 d = Inr (Some e)"
  using assms by (auto simp add: py_range_values gst_defs special_torch_def return_sprite_def Let_def)

lemma generate_85:
  "\<exists>e. generate_special_texture L 85 d = Inr (Some e)"
  by (simp add: gst_defs special_fence_def return_sprite_def Let_def split_def)

lemma generate_86:
  "\<exists>e. generate_special_texture L 86 d = Inr (Some e)"
  by (simp add: gst_defs special_pumpkin_def return_sprite_def Let_def split_def)

lemma generate_91:
  "\<exists>e. generate_special_texture L 91 d = Inr (Some e)"
  by (simp add: gst_defs special_pumpkin_def return_sprite_def Let_def split_def)

lemma generate_92:
  "\<exists>e. generate_special_texture L 92 d = Inr (Some e)"
  by (simp add: gst_defs special_cake_def return_sprite_def Let_def split_def)

text \<open>The two loops that fill the cache: what they store, and that they end without an
  error when the generator does.\<close>

lemma fill_data_result:
  "fill_data L b ds m = Inr m' \<Longrightarrow>
     (\<forall>d \<in> set ds. \<exists>v. generate_special_texture L b d = Inr v \<and> m' (b, d) = Some v)
     \<and> (\<forall>k d. \<not> (k = b \<and> d \<in> set ds) \<longrightarrow> m' (k, d) = m (k, d))"
proof (induction ds arbitrary: m)
  case Nil
  then show ?case by simp
next
  case (Cons x ds)
  from Cons.prems obtain v where v: "generate_special_texture L b x = Inr v"
    and rest: "fill_data L b ds (m((b, x) \<mapsto> v)) = Inr m'"
    by (auto split: sum.splits)
  note ih = Cons.IH [OF rest]
  have "m' (b, x) = Some v"
  proof (cases "x \<in> set ds")
    case True
    then show ?thesis using ih v by auto
  next
    case False
    then show ?thesis using ih by simp
  qed
  then show ?case using ih v by auto
qed

lemma fill_blocks_result:
  "fill_blocks L bs m = Inr m' \<Longrightarrow>
     (\<forall>b \<in> set bs. \<exists>ds. special_map b = Some ds
         \<and> (\<forall>d \<in> set ds. \<exists>v. generate_special_texture L b d = Inr v \<and> m' (b, d) = Some v))
     \<and> (\<forall>k d. \<not> (k \<in> set bs \<and> d \<in> set (the (special_map k))) \<longrightarrow> m' (k, d) = m (k, d))"
proof (induction bs arbitrary: m)
  case Nil
  then show ?case by simp
next
  case (Cons b bs)
  from Cons.prems obtain ds m1 where ds: "special_map b = Some ds"
    and m1: "fill_data L b ds m = Inr m1"
    and rest: "fill_blocks L bs m1 = Inr m'"
    by (auto split: option.splits sum.splits)
  note ih = Cons.IH [OF rest]
  note fd = fill_data_result [OF m1]
  have here: "\<forall>d \<in> set ds. \<exists>v. generate_special_texture L b d = Inr v \<and> m' (b, d) = Some v"
  proof
    fix d assume d: "d \<in> set ds"
    from fd d obtain v where v: "generate_special_texture L b d = Inr v" "m1 (b, d) = Some v"
      by blast
    show "\<exists>v. generate_special_texture L b d = Inr v \<and> m' (b, d) = Some v"
    proof (cases "b \<in> set bs")
      case True
      then show ?thesis using ih ds d by auto
    next
      case False
      then have "m' (b, d) = m1 (b, d)" using ih by simp
      then show ?thesis using v by simp
    qed
  qed
  have frame: "\<forall>k d. \<not> (k \<in> set (b # bs) \<and> d \<in> set (the (special_map k))) \<longrightarrow>
      m' (k, d) = m (k, d)"
  proof (intro allI impI)
    fix k d assume n: "\<not> (k \<in> set (b # bs) \<and> d \<in> set (the (special_map k)))"
    then have "m' (k, d) = m1 (k, d)" using ih by auto
    moreover have "\<not> (k = b \<and> d \<in> set ds)" using n ds by auto
    then have "m1 (k, d) = m (k, d)" using fd by blast
    ultimately show "m' (k, d) = m (k, d)" by simp
  qed
  show ?case using here frame ih ds by auto
qed

lemma fill_data_total:
  "\<forall>d \<in> set ds. \<exists>v. generate_special_texture L b d = Inr v \<Longrightarrow>
   \<exists>m'. fill_data L b ds m = Inr m'"
proof (induction ds arbitrary: m)
  case Nil
  then show ?case by simp
next
  case (Cons x ds)
  then obtain v where v: "generate_special_texture L b x = Inr v" by auto
  from Cons.prems have "\<forall>d \<in> set ds. \<exists>v. generate_special_texture L b d = Inr v" by simp
  from Cons.IH [OF this] show ?case by (simp add: v)
qed

lemma fill_blocks_total:
  "\<forall>b \<in> set bs. \<exists>ds. special_map b = Some ds
      \<and> (\<forall>d \<in> set ds. \<exists>v. generate_special_texture L b d = Inr v) \<Longrightarrow>
   \<exists>m'. fill_blocks L bs m = Inr m'"
proof (induction bs arbitrary: m)
  case Nil
  then show ?case by simp
next
  case (Cons b bs)
  then obtain ds where ds: "special_map b = Some ds"
    and g: "\<forall>d \<in> set ds. \<exists>v. generate_special_texture L b d = Inr v"
    by auto
  from fill_data_total [OF g] obtain m1 where m1: "fill_data L b ds m = Inr m1" by blast
  from Cons.prems have "\<forall>b \<in> set bs. \<exists>ds. special_map b = Some ds
      \<and> (\<forall>d \<in> set ds. \<exists>v. generate_special_texture L b d = Inr v)" by simp
  from Cons.IH [OF this] show ?case by (simp add: ds m1)
qed

lemma generate_in_domain:
  assumes w: "decode_file L ''water.png'' = Some wt"
    and f: "decode_file L ''fire.png'' = Some ft"
    and b: "b \<in> set special_blocks"
    and ds: "special_map b = Some ds"
    and d: "d \<in> set ds"
  shows "(b = 17 \<and> d = 3 \<and> generate_special_texture L b d = Inr None)
       \<or> (\<not> (b = 17 \<and> d = 3) \<and> (\<exists>e. generate_special_texture L b d = Inr (Some e)))"
proof -
  from b consider "b = 2" | "b = 6" | "b = 9" | "b = 17" | "b = 18" | "b = 23" | "b = 27" | "b = 28" | "b = 35" | "b = 43" | "b = 44" | "b = 50" | "b = 51" | "b = 53" | "b = 55" | "b = 58" | "b = 59" | "b = 61" | "b = 62" | "b = 64" | "b = 65" | "b = 66" | "b = 67" | "b = 71" | "b = 75" | "b = 76" | "b = 85" | "b = 86" | "b = 91" | "b = 92"
    by (auto simp add: special_blocks_def)
  then show ?thesis
  proof cases
    case 1
    then show ?thesis using generate_2 [of L d] by simp
  next
    case 2
    then show ?thesis using generate_6 [of L d] by simp
  next
    case 3
    then show ?thesis using generate_9 [OF w, of d] by simp
  next
    case 4
    then show ?thesis using ds d generate_17 [of d L] by (auto simp add: special_map_lookup)
  next
    case 5
    then show ?thesis using generate_18 [of L d] by simp
  next
    case 6
    then show ?thesis using generate_23 [of L d] by simp
  next
    case 7
    then show ?thesis using generate_27 [of L d] by simp
  next
    case 8
    then show ?thesis using generate_28 [of L d] by simp
  next
    case 9
    then show ?thesis using ds d generate_35 [of d L] by (auto simp add: special_map_lookup)
  next
    case 10
    then show ?thesis using ds d generate_43 [of d L] by (auto simp add: special_map_lookup)
  next
    case 11
    then show ?thesis using ds d generate_44 [of d L] by (auto simp add: special_map_lookup)
  next
    case 12
    then show ?thesis using ds d generate_50 [of d L] by (auto simp add: special_map_lookup)
  next
    case 13
    then show ?thesis using generate_51 [OF f, of d] by simp
  next
    case 14
    then show ?thesis using ds d generate_53 [of d L] by (auto simp add: special_map_lookup)
  next
    case 15
    then show ?thesis using generate_55 [of L d] by simp
  next
    case 16
    then show ?thesis using generate_58 [of L d] by simp
  next
    case 17
    then show ?thesis using ds d generate_59 [of d L] by (auto simp add: special_map_lookup)
  next
    case 18
    then show ?thesis using generate_61 [of L d] by simp
  next
    case 19
    then show ?thesis using generate_62 [of L d] by simp
  next
    case 20
    then show ?thesis using generate_64 [of L d] by simp
  next
    case 21
    then show ?thesis using ds d generate_65 [of d L] by (auto simp add: special_map_lookup)
  next
    case 22
    then show ?thesis using generate_66 [of L d] by simp
  next
    case 23
    then show ?thesis using ds d generate_67 [of d L] by (auto simp add: special_map_lookup)
  next
    case 24
    then show ?thesis using generate_71 [of L d] by simp
  next
    case 25
    then show ?thesis using ds d generate_75 [of d L] by (auto simp add: special_map_lookup)
  next
    case 26
    then show ?thesis using ds d generate_76 [of d L] by (auto simp add: special_map_lookup)
  next
    case 27
    then show ?thesis using generate_85 [of L d] by simp
  next
    case 28
    then show ?thesis using generate_86 [of L d] by simp
  next
    case 29
    then show ?thesis using generate_91 [of L d] by simp
  next
    case 30
    then show ?thesis using generate_92 [of L d] by simp
  qed
qed

section \<open>The claims\<close>

text \<open>
  C1. Cache completeness: for every kind of \<open>special_blocks\<close>, the cache holds a present
  sprite for every state of \<open>special_map\<close> of that kind, and no entry for a state outside
  it. The code, when the water and fire textures open: the cache is built, its keys are
  the declared domains and nothing else, but kind 17 (wood) is declared with
  \<^verbatim>\<open>range(4)\<close> while the generator lists the states 0, 1 and 2 only; for state 3 it
  passes every later test and returns \<open>None\<close>, which the loop stores under (17, 3). Every
  other entry is a sprite.
\<close>

theorem special_cache_wood_3_absent:
  assumes w: "decode_file L ''water.png'' = Some wt"
    and f: "decode_file L ''fire.png'' = Some ft"
  shows "\<exists>m. specialblockmap L = Inr m
     \<and> 17 \<in> set special_blocks \<and> special_map 17 = Some [0, 1, 2, 3]
     \<and> generate_special_texture L 17 3 = Inr None
     \<and> m (17, 3) = Some None
     \<and> (\<forall>b d. (b, d) \<in> dom m \<longleftrightarrow> b \<in> set special_blocks \<and> d \<in> set (the (special_map b)))
     \<and> (\<forall>b d. m (b, d) = Some None \<longrightarrow> b = 17 \<and> d = 3)"
proof -
  have tot: "\<forall>b \<in> set special_blocks. \<exists>ds. special_map b = Some ds
      \<and> (\<forall>d \<in> set ds. \<exists>v. generate_special_texture L b d = Inr v)"
  proof
    fix b assume b: "b \<in> set special_blocks"
    then obtain ds where ds: "special_map b = Some ds"
      by (auto simp add: special_blocks_def special_map_lookup)
    have "\<forall>d \<in> set ds. \<exists>v. generate_special_texture L b d = Inr v"
      using generate_in_domain [OF w f b ds] by blast
    then show "\<exists>ds. special_map b = Some ds
      \<and> (\<forall>d \<in> set ds. \<exists>v. generate_special_texture L b d = Inr v)"
      using ds by blast
  qed
  from fill_blocks_total [OF tot] obtain m where m: "specialblockmap L = Inr m"
    unfolding specialblockmap_def by blast
  note r = fill_blocks_result [OF m [unfolded specialblockmap_def]]
  have entry: "\<exists>v. generate_special_texture L b d = Inr v \<and> m (b, d) = Some v"
    if "b \<in> set special_blocks" "d \<in> set (the (special_map b))" for b d
    using r that by fastforce
  have outside: "m (b, d) = None"
    if "\<not> (b \<in> set special_blocks \<and> d \<in> set (the (special_map b)))" for b d
    using r that by simp
  have k: "(17::int) \<in> set special_blocks" "(3::int) \<in> set (the (special_map 17))"
    by (simp_all add: special_blocks_def special_map_lookup py_range_values)
  have s: "special_map 17 = Some [0, 1, 2, 3]"
    by (simp add: special_map_lookup py_range_values)
  have g: "generate_special_texture L 17 3 = Inr None"
    by (simp add: gst_defs)
  have a: "m (17, 3) = Some None"
    using entry [OF k] g by simp
  have keys: "(b, d) \<in> dom m \<longleftrightarrow> b \<in> set special_blocks \<and> d \<in> set (the (special_map b))"
    for b d
    using entry [of b d] outside [of b d]
    by (cases "b \<in> set special_blocks \<and> d \<in> set (the (special_map b))") auto
  have pres: "b = 17 \<and> d = 3" if n: "m (b, d) = Some None" for b d
  proof -
    have in_dom: "b \<in> set special_blocks \<and> d \<in> set (the (special_map b))"
      using outside [of b d] n by auto
    then obtain ds where ds: "special_map b = Some ds" "d \<in> set ds"
      using tot by fastforce
    from entry in_dom n have "generate_special_texture L b d = Inr None" by fastforce
    then show ?thesis using generate_in_domain [OF w f _ ds] in_dom by auto
  qed
  show ?thesis using m a keys pres k(1) s g by blast
qed

theorem special_cache_wood_3_absent_witness:
  "decode_file flat_pil ''water.png'' = Some (image_new (16, 16) (0, 0, 255, 128))
   \<and> decode_file flat_pil ''fire.png'' = Some (image_new (16, 16) (0, 0, 255, 128))
   \<and> (\<exists>m. specialblockmap flat_pil = Inr m \<and> m (17, 3) = Some None)"
proof -
  have w: "decode_file flat_pil ''water.png'' = Some (image_new (16, 16) (0, 0, 255, 128))"
    and f: "decode_file flat_pil ''fire.png'' = Some (image_new (16, 16) (0, 0, 255, 128))"
    by (simp_all add: flat_pil_def)
  from special_cache_wood_3_absent [OF w f] obtain m where
    "specialblockmap flat_pil = Inr m" "m (17, 3) = Some None"
    by blast
  then show ?thesis using w f by blast
qed

text \<open>
  C2. A (kind, state) pair that matches no branch of the generator makes it return \<open>None\<close>
  without an error, in particular a torch kind (50, 75, 76) with a state outside 1 to 5.
  The code: for such a torch no branch binds \<open>img\<close>, and the \<^verbatim>\<open>return\<close> that closes
  the torch body reads it: the call raises UnboundLocalError.
\<close>

theorem torch_outside_domain_raises:
  "blockID \<in> {50, 75, 76} \<Longrightarrow> data \<notin> {1, 2, 3, 4, 5} \<Longrightarrow>
   generate_special_texture L blockID data = Inl (UnboundLocalError ''img'')"
proof -
  assume d: "data \<notin> {1, 2, 3, 4, 5}"
  assume "blockID \<in> {50, 75, 76}"
  then consider "blockID = 50" | "blockID = 75" | "blockID = 76" by auto
  then show ?thesis
    using d by cases (simp_all add: gst_defs special_torch_def Let_def)
qed

theorem torch_outside_domain_raises_witness:
  "(50::int) \<in> {50, 75, 76} \<and> (0::int) \<notin> {1, 2, 3, 4, 5}
   \<and> generate_special_texture flat_pil 50 0 = Inl (UnboundLocalError ''img'')"
  using torch_outside_domain_raises [of 50 0 flat_pil] by simp

text \<open>
  C3. In \<^verbatim>\<open>_build_full_block\<close> every present face, the bottom included, is composited
  with its own alpha channel as the mask. The code: with a top and a bottom face given,
  the bottom is composited at (0, 12) with the mask \<open>top'\<close>, the top tile as it was
  passed in (not yet projected), and not with the projected bottom.
\<close>

theorem full_block_bottom_mask_is_top:
  "build_full_block L (Some t) None None None None (Some b) blockID =
     alpha_over L
       (alpha_over L (image_new (24, 24) background)
          (transform_image L b blockID) [0, 12] (Some t))
       (transform_image L t blockID) [0, 0] (Some (transform_image L t blockID))"
  by (simp add: build_full_block_def Let_def)

text \<open>
  C4. In \<^verbatim>\<open>_build_block\<close>, for every kind and every top and side tile, the right face is
  the horizontal mirror of the left face taken before any brightness change; then the
  RGB of the left face is that of the face darkened by 0.9, the RGB of the right face
  that of the mirror darkened by 0.8, and each face keeps its own alpha channel. These
  two faces are the ones the block is composed of.
\<close>

theorem build_block_mirrored_sides:
  "let s = transform_image_side L side blockID;
       mirrored = image_transpose FLIP_LEFT_RIGHT s;
       left = fst (build_block_sides L s);
       right = snd (build_block_sides L s);
       img = image_new (24, 24) background
   in alpha_band left = alpha_band s
    \<and> convert_RGB left = convert_RGB (brightness_enhance L s 0.9)
    \<and> alpha_band right = alpha_band mirrored
    \<and> convert_RGB right = convert_RGB (brightness_enhance L mirrored 0.8)
    \<and> build_block L top' (Some side) blockID =
        (if blockID \<in> {Some 37, Some 38, Some 6, Some 39, Some 40, Some 83}
         then alpha_over L (alpha_over L img left [6, 3] (Some left)) right [6, 3] (Some right)
         else touch_up
                (build_block_placed L blockID img (transform_image L top' blockID) left right))"
  by (simp add: build_block_def build_block_sides_def Let_def alpha_band_def convert_RGB_def
      putalpha_def brightness_enhance_def image_transpose_def split_def)

text \<open>
  C5. For every cube of \<^verbatim>\<open>_build_block\<close> with a side, of a kind that takes the default
  placement, the finished image has pixel (13, 23) equal to pixel (12, 23), pixels
  (17, 21) and (21, 19) equal to their left neighbours, and pixels (3, 4), (7, 2) and
  (11, 0) equal to their right neighbours; every other pixel is the one of the cube as
  composited at (0, 6), (12, 6) and (0, 0).
\<close>

theorem build_block_seam_pixels:
  assumes "blockID \<notin> {Some 37, Some 38, Some 6, Some 39, Some 40, Some 83,
                      Some 81, Some 44, Some 78}"
  shows "let img = build_block L top' (Some side) blockID;
             s = transform_image_side L side blockID;
             t = transform_image L top' blockID;
             placed = alpha_over L
                        (alpha_over L
                           (alpha_over L (image_new (24, 24) background)
                              (fst (build_block_sides L s)) [0, 6]
                              (Some (fst (build_block_sides L s))))
                           (snd (build_block_sides L s)) [12, 6]
                           (Some (snd (build_block_sides L s))))
                        t [0, 0] (Some t)
         in getpixel img (13, 23) = getpixel img (12, 23)
          \<and> getpixel img (17, 21) = getpixel img (16, 21)
          \<and> getpixel img (21, 19) = getpixel img (20, 19)
          \<and> getpixel img (3, 4) = getpixel img (4, 4)
          \<and> getpixel img (7, 2) = getpixel img (8, 2)
          \<and> getpixel img (11, 0) = getpixel img (12, 0)
          \<and> (\<forall>p. p \<notin> {(13, 23), (17, 21), (21, 19), (3, 4), (7, 2), (11, 0)} \<longrightarrow>
                 getpixel img p = getpixel placed p)"
  unfolding build_block_default [OF assms]
  by (simp add: Let_def getpixel_def px_touch_up)

theorem build_block_seam_pixels_witness:
  "Some 1 \<notin> {Some 37, Some 38, Some 6, Some 39, Some 40, Some 83, Some 81, Some 44, Some (78::int)}
   \<and> (let white = image_new (16, 16) (255, 255, 255, 255);
           img = build_block flat_pil white (Some white) (Some 1)
       in getpixel img (13, 23) = getpixel img (12, 23)
        \<and> getpixel img (17, 21) = getpixel img (16, 21)
        \<and> getpixel img (21, 19) = getpixel img (20, 19)
        \<and> getpixel img (3, 4) = getpixel img (4, 4)
        \<and> getpixel img (7, 2) = getpixel img (8, 2)
        \<and> getpixel img (11, 0) = getpixel img (12, 0))"
proof -
  have h: "Some 1 \<notin> {Some 37, Some 38, Some 6, Some 39, Some 40, Some 83, Some 81, Some 44,
                      Some (78::int)}"
    by simp
  show ?thesis
    using h build_block_seam_pixels [OF h, of flat_pil "image_new (16, 16) (255, 255, 255, 255)"
        "image_new (16, 16) (255, 255, 255, 255)"]
    by (simp add: Let_def)
qed

text \<open>
  C6. Redstone wire (kind 55) with the powered bit clear: when the low four bits of the
  state are 1010 the bottom texture is the straight-wire tile (165) tinted with the
  unpowered colour (48, 0, 0), not rotated; when they are 0101 it is that tile rotated by
  90 degrees. The bottom texture is the bottom face of the block the generator returns.
\<close>

theorem redstone_straight_bottom:
  assumes "data AND 64 = 0"
  shows "(data AND 15 = 10 \<longrightarrow>
            redstone_bottom L data (fst (redstone_textures L data))
              (snd (redstone_textures L data))
            = tintTexture L (tile L 165) (48, 0, 0))
       \<and> (data AND 15 = 5 \<longrightarrow>
            redstone_bottom L data (fst (redstone_textures L data))
              (snd (redstone_textures L data))
            = image_rotate L (tintTexture L (tile L 165) (48, 0, 0)) 90)
       \<and> generate_special_texture L 55 data =
           return_sprite
             (build_full_block L None
                (if data AND 32 = 32
                 then Some (image_rotate L (tintTexture L (tile L 165) (48, 0, 0)) 90)
                 else None)
                (if data AND 16 = 16
                 then Some (image_rotate L (tintTexture L (tile L 165) (48, 0, 0)) 90)
                 else None)
                None None
                (Some (redstone_bottom L data (fst (redstone_textures L data))
                         (snd (redstone_textures L data))))
                None)"
proof -
  have a: "data AND 15 = 10 \<Longrightarrow> data AND 63 \<noteq> 0"
    using and_15_of_and_63 [of data] by auto
  have b: "data AND 15 = 5 \<Longrightarrow> data AND 63 \<noteq> 0"
    using and_15_of_and_63 [of data] by auto
  have t: "redstone_textures L data =
      (tintTexture L (tile L 165) (48, 0, 0), tintTexture L (tile L 164) (48, 0, 0))"
    using assms by (simp add: redstone_textures_def Let_def)
  have "data AND 15 = 10 \<Longrightarrow>
      redstone_bottom L data (tintTexture L (tile L 165) (48, 0, 0))
        (tintTexture L (tile L 164) (48, 0, 0))
      = tintTexture L (tile L 165) (48, 0, 0)"
    using a by (simp add: redstone_bottom_def Let_def image_copy_def)
  moreover have "data AND 15 = 5 \<Longrightarrow>
      redstone_bottom L data (tintTexture L (tile L 165) (48, 0, 0))
        (tintTexture L (tile L 164) (48, 0, 0))
      = image_rotate L (tintTexture L (tile L 165) (48, 0, 0)) 90"
    using b by (simp add: redstone_bottom_def Let_def image_copy_def)
  moreover have "generate_special_texture L 55 data =
      special_redstone L data"
    by (simp add: gst_defs)
  ultimately show ?thesis
    by (simp add: t special_redstone_def Let_def)
qed

theorem redstone_straight_bottom_witness:
  "(10::int) AND 64 = 0 \<and> (10::int) AND 15 = 10
   \<and> redstone_bottom flat_pil 10 (fst (redstone_textures flat_pil 10))
        (snd (redstone_textures flat_pil 10))
      = tintTexture flat_pil (tile flat_pil 165) (48, 0, 0)
   \<and> (5::int) AND 64 = 0 \<and> (5::int) AND 15 = 5
   \<and> redstone_bottom flat_pil 5 (fst (redstone_textures flat_pil 5))
        (snd (redstone_textures flat_pil 5))
      = image_rotate flat_pil (tintTexture flat_pil (tile flat_pil 165) (48, 0, 0)) 90"
proof -
  have h10: "(10::int) AND 64 = 0" and l10: "(10::int) AND 15 = 10"
    and h5: "(5::int) AND 64 = 0" and l5: "(5::int) AND 15 = 5"
    by simp_all
  show ?thesis
    using h10 l10 h5 l5 redstone_straight_bottom [OF h10, of flat_pil]
      redstone_straight_bottom [OF h5, of flat_pil]
    by simp
qed

text \<open>
  C7. For every RGBA tile and every colour, the alpha channel of
  \<^verbatim>\<open>tintTexture(tile, color)\<close> is the alpha channel of the tile, byte for byte.
\<close>

theorem tintTexture_keeps_alpha:
  "alpha_band (tintTexture L im c) = alpha_band im"
  by (simp add: tintTexture_def alpha_band_def putalpha_RGB_def colorize_def grayscale_def
      split_def)

text \<open>
  C8. For every tile and every kind, \<^verbatim>\<open>transform_image\<close> returns an image of 24 by 12 and
  \<^verbatim>\<open>transform_image_side\<close> one of 12 by 18; \<^verbatim>\<open>transform_image\<close> projects the tile
  resized to 17 by 17, or to 15 by 15 when the kind is 81 (cactus) or 92 (cake).
\<close>

theorem projector_sizes:
  "isize (transform_image L img blockID) = (24, 12)
   \<and> isize (transform_image_side L img blockID) = (12, 18)
   \<and> transform_image L img blockID =
       image_transform_affine L (transform_image_resized L img blockID) (24, 12)
         (affine_data transform_image_matrix)
   \<and> isize (transform_image_resized L img blockID) =
       (if blockID = Some 81 \<or> blockID = Some 92 then (15, 15) else (17, 17))"
  by (simp add: transform_image_def transform_image_side_def transform_image_resized_def
      image_transform_affine_def image_resize_def Let_def)

text \<open>
  C9. For the sapling (kind 6) the spruce variant (state 1) is the sprite of the default
  variant (state 0), both built from tile 15: the tile the branch for state 1 assigns is
  replaced by the \<^verbatim>\<open>else\<close> of the test for state 2.
\<close>

theorem sapling_spruce_is_default:
  "generate_special_texture L 6 1 = generate_special_texture L 6 0
   \<and> generate_special_texture L 6 0 =
       Inr (Some (sprite_entry (build_block L (tile L 15) (Some (tile L 15)) (Some 6))))"
  by (simp add: gst_defs special_sapling_def return_sprite_def sprite_entry_def Let_def)

text \<open>
  C10. After \<^verbatim>\<open>_build_blockimages\<close> and \<^verbatim>\<open>load_water\<close>, when the two texture files
  open, the entries of kinds 8, 9, 10 and 11 hold the whole RGBA sprite as their second
  component, and the entry of kind 11 is the entry of kind 10; every other entry is
  absent or holds the alpha band split from its sprite.
\<close>

theorem load_water_entries:
  assumes w: "decode_file L ''water.png'' = Some watertexture"
    and l: "decode_file L ''lava.png'' = Some lavatexture"
  shows "\<exists>bm. blockmap L = Inr bm \<and> length bm = 256
     \<and> bm ! 9 = (let w1 = build_block L watertexture None None
                 in Some (convert_RGB w1, FullImage w1))
     \<and> bm ! 8 = (let w2 = build_block L watertexture (Some watertexture) None
                 in Some (convert_RGB w2, FullImage w2))
     \<and> bm ! 10 = (let lavablock = build_block L lavatexture (Some lavatexture) None
                  in Some (convert_RGB lavablock, FullImage lavablock))
     \<and> bm ! 11 = bm ! 10
     \<and> (\<forall>k < 256. k \<notin> {8, 9, 10, 11} \<longrightarrow>
           bm ! k = None
           \<or> (\<exists>img. bm ! k = Some (convert_RGB img, AlphaBand (alpha_band img))))"
proof -
  obtain xs where xs: "build_blockimages L = Inr xs"
    by (simp add: build_blockimages_eq)
  note e = build_blockimages_entries [OF xs]
  obtain bm where bm: "load_water L xs = Inr bm"
    by (simp add: load_water_eq [OF w l])
  have b: "blockmap L = Inr bm" by (simp add: blockmap_def xs bm)
  from bm have bm_eq:
    "bm = xs[9 := Some (convert_RGB (build_block L watertexture None None),
                        FullImage (build_block L watertexture None None)),
             8 := Some (convert_RGB (build_block L watertexture (Some watertexture) None),
                        FullImage (build_block L watertexture (Some watertexture) None)),
             10 := Some (convert_RGB (build_block L lavatexture (Some lavatexture) None),
                         FullImage (build_block L lavatexture (Some lavatexture) None)),
             11 := xs[9 := Some (convert_RGB (build_block L watertexture None None),
                        FullImage (build_block L watertexture None None)),
             8 := Some (convert_RGB (build_block L watertexture (Some watertexture) None),
                        FullImage (build_block L watertexture (Some watertexture) None)),
             10 := Some (convert_RGB (build_block L lavatexture (Some lavatexture) None),
                         FullImage (build_block L lavatexture (Some lavatexture) None))] ! 10]"
    unfolding load_water_eq [OF w l] by simp
  have len: "length bm = 256" by (simp add: bm_eq e(1))
  have n9: "bm ! 9 = Some (convert_RGB (build_block L watertexture None None),
                        FullImage (build_block L watertexture None None))"
    by (simp add: bm_eq e(1))
  have n8: "bm ! 8 = Some (convert_RGB (build_block L watertexture (Some watertexture) None),
                        FullImage (build_block L watertexture (Some watertexture) None))"
    by (simp add: bm_eq e(1))
  have n10: "bm ! 10 = Some (convert_RGB (build_block L lavatexture (Some lavatexture) None),
                         FullImage (build_block L lavatexture (Some lavatexture) None))"
    by (simp add: bm_eq e(1))
  have n11: "bm ! 11 = bm ! 10"
    by (simp add: bm_eq e(1))
  have other: "bm ! k = None
      \<or> (\<exists>img. bm ! k = Some (convert_RGB img, AlphaBand (alpha_band img)))"
    if "k < 256" "k \<notin> {8, 9, 10, 11}" for k
  proof -
    from that have "bm ! k = xs ! k" by (simp add: bm_eq)
    then show ?thesis using e(2) [OF that(1)] by (simp add: sprite_entry_def)
  qed
  show ?thesis
    using b len n9 n8 n10 n11 other by (intro exI [of _ bm]) (simp add: Let_def)
qed

theorem load_water_entries_witness:
  "decode_file flat_pil ''water.png'' = Some (image_new (16, 16) (0, 0, 255, 128))
   \<and> decode_file flat_pil ''lava.png'' = Some (image_new (16, 16) (0, 0, 255, 128))
   \<and> (\<exists>bm. blockmap flat_pil = Inr bm \<and> length bm = 256
        \<and> bm ! 9 = (let w1 = build_block flat_pil (image_new (16, 16) (0, 0, 255, 128)) None None
                    in Some (convert_RGB w1, FullImage w1))
        \<and> bm ! 11 = bm ! 10
        \<and> (bm ! 1 = None
            \<or> (\<exists>img. bm ! 1 = Some (convert_RGB img, AlphaBand (alpha_band img)))))"
proof -
  have w: "decode_file flat_pil ''water.png'' = Some (image_new (16, 16) (0, 0, 255, 128))"
    and l: "decode_file flat_pil ''lava.png'' = Some (image_new (16, 16) (0, 0, 255, 128))"
    by (simp_all add: flat_pil_def)
  from load_water_entries [OF w l] obtain bm where
    bm: "blockmap flat_pil = Inr bm" "length bm = 256"
      "bm ! 9 = (let w1 = build_block flat_pil (image_new (16, 16) (0, 0, 255, 128)) None None
                 in Some (convert_RGB w1, FullImage w1))"
      "bm ! 11 = bm ! 10"
      "\<forall>k < 256. k \<notin> {8, 9, 10, 11} \<longrightarrow>
         bm ! k = None
         \<or> (\<exists>img. bm ! k = Some (convert_RGB img, AlphaBand (alpha_band img)))"
    by blast
  from bm(5) have "bm ! 1 = None
      \<or> (\<exists>img. bm ! 1 = Some (convert_RGB img, AlphaBand (alpha_band img)))"
    by simp
  then show ?thesis using w l bm(1-4) by blast
qed

section \<open>Further properties\<close>

text \<open>
  A kind that no test of the generator names makes it return \<open>None\<close>, whatever the data;
  so does a wood, slab or ladder kind with a data value its body does not list.
\<close>

theorem unlisted_kind_returns_none:
  assumes "blockID \<notin> {2, 6, 9, 17, 18, 23, 35, 43, 44, 50, 75, 76, 51, 53, 67, 55, 58, 59,
                      61, 62, 64, 71, 65, 27, 28, 66, 85, 86, 91, 92}
           \<or> blockID = 17 \<and> data \<notin> {0, 1, 2}
           \<or> blockID = 43 \<and> data \<notin> {0, 1, 2, 3}
           \<or> blockID = 44 \<and> data \<notin> {0, 1, 2, 3}
           \<or> blockID = 65 \<and> data \<notin> {2, 3, 4, 5}"
  shows "generate_special_texture L blockID data = Inr None"
  using assms
proof (elim disjE conjE)
  assume "blockID \<notin> {2, 6, 9, 17, 18, 23, 35, 43, 44, 50, 75, 76, 51, 53, 67, 55, 58, 59,
                      61, 62, 64, 71, 65, 27, 28, 66, 85, 86, 91, 92}"
  then show ?thesis
    by (simp only: gst_defs insert_iff empty_iff de_Morgan_disj simp_thms if_False)
next
  assume "blockID = 17" "data \<notin> {0, 1, 2}"
  then show ?thesis by (simp add: gst_defs)
next
  assume "blockID = 43" "data \<notin> {0, 1, 2, 3}"
  then show ?thesis by (simp add: gst_defs)
next
  assume "blockID = 44" "data \<notin> {0, 1, 2, 3}"
  then show ?thesis by (simp add: gst_defs)
next
  assume "blockID = 65" "data \<notin> {2, 3, 4, 5}"
  then show ?thesis by (simp add: gst_defs)
qed

theorem unlisted_kind_returns_none_witness:
  "generate_special_texture flat_pil 1 0 = Inr None
   \<and> generate_special_texture flat_pil 17 3 = Inr None
   \<and> generate_special_texture flat_pil 65 0 = Inr None"
  using unlisted_kind_returns_none [of 1 0 flat_pil]
    unlisted_kind_returns_none [of 17 3 flat_pil]
    unlisted_kind_returns_none [of 65 0 flat_pil]
  by simp

text \<open>
  Stairs (kinds 53 and 67) bind \<open>img\<close> for the data values 0 to 3 only, and return it
  whatever the data: any other value raises UnboundLocalError, as for the torches.
\<close>

theorem stairs_outside_domain_raises:
  "blockID \<in> {53, 67} \<Longrightarrow> data \<notin> {0, 1, 2, 3} \<Longrightarrow>
   generate_special_texture L blockID data = Inl (UnboundLocalError ''img'')"
proof -
  assume d: "data \<notin> {0, 1, 2, 3}"
  assume "blockID \<in> {53, 67}"
  then consider "blockID = 53" | "blockID = 67" by auto
  then show ?thesis
    using d by cases (simp_all add: gst_defs special_stairs_def Let_def)
qed

theorem stairs_outside_domain_raises_witness:
  "(53::int) \<in> {53, 67} \<and> (4::int) \<notin> {0, 1, 2, 3}
   \<and> generate_special_texture flat_pil 53 4 = Inl (UnboundLocalError ''img'')"
  using stairs_outside_domain_raises [of 53 4 flat_pil] by simp

text \<open>
  In \<^verbatim>\<open>_build_full_block\<close> a face passed as \<open>None\<close> is skipped: with no face at all the
  result is the empty canvas, and with the top alone it is the canvas with the projected
  top composited at (0, 0), masked by itself.
\<close>

theorem full_block_null_faces:
  "build_full_block L None None None None None None blockID = image_new (24, 24) background
   \<and> build_full_block L (Some t) None None None None None blockID =
       alpha_over L (image_new (24, 24) background) (transform_image L t blockID) [0, 0]
         (Some (transform_image L t blockID))"
  by (simp add: build_full_block_def Let_def)

end
